theory Spec2Isabelle
  imports
    Main
    "HOL-Library.FSet"
    "HOL-Library.Finite_Map"
    "HOL-Library.Char_ord"
    "HOL-Library.List_Lexorder"
    "HOL-Library.Monad_Syntax"
begin

chapter \<open>GoFast server: the data plane\<close>

text \<open>
  A shallow embedding of the command engine of the GoFast cache server
  (\<^verbatim>\<open>types.go\<close>, \<^verbatim>\<open>protocol.go\<close>, the handlers, the encoders and the
  containers).

  Conventions of the embedding.
  \<^item> A Go \<^verbatim>\<open>[]byte\<close> and a Go \<^verbatim>\<open>string\<close> are both \<^typ>\<open>string\<close>: a list of
    8-bit characters. \<^verbatim>\<open>string(b)\<close> and \<^verbatim>\<open>[]byte(s)\<close> are the identity.
    Strings are ordered bytewise (lexicographically), as Go orders them.
  \<^item> Go's \<^verbatim>\<open>int\<close> and \<^verbatim>\<open>int64\<close> are \<^typ>\<open>int\<close>; where the source computes
    in \<^verbatim>\<open>int64\<close> the two's complement wrap-around is written out (\<open>wrap64\<close>).
    A \<^verbatim>\<open>uint32\<close> is a \<^typ>\<open>nat\<close> below \<open>2^32\<close>, with \<open>mod 2^32\<close> written out
    where the source computes in \<^verbatim>\<open>uint32\<close>.
  \<^item> The server state is the keyspace (\<^verbatim>\<open>storage\<close>, a \<^verbatim>\<open>sync.Map\<close>) and the
    TTL index (\<^verbatim>\<open>ttlIndex\<close>), both finite maps. Handlers take the state and
    return the new state with the response bytes. The clock value
    \<^verbatim>\<open>time.Now().Unix()\<close> is the parameter \<open>now\<close>.
  \<^item> A \<^verbatim>\<open>CacheItem\<close> carries its \<^verbatim>\<open>DataType\<close> tag and its dynamically typed
    \<^verbatim>\<open>Value\<close> as one tagged value (\<open>Data\<close>): every item literal of the source
    pairs \<^verbatim>\<open>TYPE_STRING\<close> with a \<^verbatim>\<open>[]byte\<close>, \<^verbatim>\<open>TYPE_LIST\<close> with a \<^verbatim>\<open>*List\<close>,
    \<^verbatim>\<open>TYPE_SET\<close> with a \<^verbatim>\<open>*Set\<close> and \<^verbatim>\<open>TYPE_HASH\<close> with a \<^verbatim>\<open>*Hash\<close>.
    A container is held by value: the source never lets two keys share one.
  \<^item> A Go runtime panic (slice bounds, index out of range) is the result
    \<open>None\<close> of a function into \<open>option\<close>.
  \<^item> The locks, the statistics counters and the buffer pool are not part of the
    state: a handler runs as one atomic step. Where the source can read what an
    earlier use left in a pooled buffer, those bytes are a parameter of the
    function (\<open>spare\<close> in the pipeline parser) or the result is \<open>None\<close> (a
    short read in the frame reader).
\<close>

section \<open>Bytes and integers\<close>

type_synonym bytes = string

text \<open>\<^verbatim>\<open>binary.BigEndian.PutUint32\<close>, applied to \<^verbatim>\<open>uint32(n)\<close>.\<close>

definition PutUint32 :: "nat \<Rightarrow> bytes" where
  "PutUint32 n =
     [char_of (n div 16777216), char_of (n div 65536), char_of (n div 256), char_of n]"

text \<open>\<^verbatim>\<open>binary.BigEndian.Uint32(b)\<close>: it panics when \<open>b\<close> has fewer than 4 bytes.\<close>

fun Uint32 :: "bytes \<Rightarrow> nat option" where
  "Uint32 (a # b # c # d # _) =
     Some (((of_char a * 256 + of_char b) * 256 + of_char c) * 256 + of_char d)"
| "Uint32 _ = None"

text \<open>
  The slice expression \<^verbatim>\<open>data[lo:hi]\<close> inside the length of \<open>data\<close>, for the
  places where the source has compared \<open>hi\<close> with \<^verbatim>\<open>len(data)\<close> before.
\<close>

definition slice :: "bytes \<Rightarrow> nat \<Rightarrow> nat \<Rightarrow> bytes option" where
  "slice data lo hi =
     (if lo \<le> hi \<and> hi \<le> length data then Some (take (hi - lo) (drop lo data)) else None)"

text \<open>Conversion of an unbounded integer to \<^verbatim>\<open>int64\<close>.\<close>

definition wrap64 :: "int \<Rightarrow> int" where
  "wrap64 x = (x + 9223372036854775808) mod 18446744073709551616 - 9223372036854775808"

text \<open>
  \<^verbatim>\<open>strconv.FormatInt(v, 10)\<close> and \<^verbatim>\<open>fmt.Sprintf("%d", v)\<close>: the decimal digits,
  after a minus sign for a negative number.
\<close>

function digits :: "nat \<Rightarrow> string" where
  "digits n =
     (if n < 10 then [char_of (48 + n)] else digits (n div 10) @ [char_of (48 + n mod 10)])"
  by pat_completeness auto
termination
  by (relation "measure (\<lambda>n. n)") auto

declare digits.simps [simp del]

definition FormatInt :: "int \<Rightarrow> string" where
  "FormatInt v = (if v < 0 then CHR ''-'' # digits (nat (- v)) else digits (nat v))"

text \<open>
  \<^verbatim>\<open>strconv.ParseInt(s, 10, 64)\<close>: an optional sign, then one or more decimal
  digits, and the value must fit \<^verbatim>\<open>int64\<close>; \<open>None\<close> is the returned error.
\<close>

fun parse_digits :: "string \<Rightarrow> nat \<Rightarrow> nat option" where
  "parse_digits [] acc = Some acc"
| "parse_digits (c # cs) acc =
     (if CHR ''0'' \<le> c \<and> c \<le> CHR ''9''
      then parse_digits cs (acc * 10 + (of_char c - 48))
      else None)"

definition ParseInt :: "string \<Rightarrow> int option" where
  "ParseInt s =
     (case s of
        [] \<Rightarrow> None
      | c # r \<Rightarrow>
          let neg = (c = CHR ''-'');
              ds = (if c = CHR ''+'' \<or> c = CHR ''-'' then r else s)
          in if ds = [] then None
             else (case parse_digits ds 0 of
                     None \<Rightarrow> None
                   | Some n \<Rightarrow>
                       if \<not> neg \<and> 9223372036854775808 \<le> n then None
                       else if neg \<and> 9223372036854775808 < n then None
                       else Some (if neg then - int n else int n)))"

section \<open>The data model (types.go)\<close>

record Message =
  Length :: nat
  Version :: nat
  Command :: nat
  Key :: bytes
  Value :: bytes
  TTL :: nat

abbreviation (input) PROTOCOL_VERSION :: nat where "PROTOCOL_VERSION \<equiv> 1"

abbreviation (input) CMD_SET :: nat where "CMD_SET \<equiv> 1"
abbreviation (input) CMD_GET :: nat where "CMD_GET \<equiv> 2"
abbreviation (input) CMD_DEL :: nat where "CMD_DEL \<equiv> 3"
abbreviation (input) CMD_EXISTS :: nat where "CMD_EXISTS \<equiv> 4"
abbreviation (input) CMD_EXPIRE :: nat where "CMD_EXPIRE \<equiv> 5"
abbreviation (input) CMD_TTL :: nat where "CMD_TTL \<equiv> 6"
abbreviation (input) CMD_MGET :: nat where "CMD_MGET \<equiv> 7"
abbreviation (input) CMD_MSET :: nat where "CMD_MSET \<equiv> 8"
abbreviation (input) CMD_PIPELINE :: nat where "CMD_PIPELINE \<equiv> 9"
abbreviation (input) CMD_LPUSH :: nat where "CMD_LPUSH \<equiv> 16"
abbreviation (input) CMD_RPUSH :: nat where "CMD_RPUSH \<equiv> 17"
abbreviation (input) CMD_LPOP :: nat where "CMD_LPOP \<equiv> 18"
abbreviation (input) CMD_RPOP :: nat where "CMD_RPOP \<equiv> 19"
abbreviation (input) CMD_LLEN :: nat where "CMD_LLEN \<equiv> 20"
abbreviation (input) CMD_LINDEX :: nat where "CMD_LINDEX \<equiv> 21"
abbreviation (input) CMD_LRANGE :: nat where "CMD_LRANGE \<equiv> 22"
abbreviation (input) CMD_SADD :: nat where "CMD_SADD \<equiv> 32"
abbreviation (input) CMD_SREM :: nat where "CMD_SREM \<equiv> 33"
abbreviation (input) CMD_SMEMBERS :: nat where "CMD_SMEMBERS \<equiv> 34"
abbreviation (input) CMD_SCARD :: nat where "CMD_SCARD \<equiv> 35"
abbreviation (input) CMD_SISMEMBER :: nat where "CMD_SISMEMBER \<equiv> 36"
abbreviation (input) CMD_HSET :: nat where "CMD_HSET \<equiv> 48"
abbreviation (input) CMD_HGET :: nat where "CMD_HGET \<equiv> 49"
abbreviation (input) CMD_HDEL :: nat where "CMD_HDEL \<equiv> 50"
abbreviation (input) CMD_HGETALL :: nat where "CMD_HGETALL \<equiv> 51"
abbreviation (input) CMD_HLEN :: nat where "CMD_HLEN \<equiv> 52"
abbreviation (input) CMD_HEXISTS :: nat where "CMD_HEXISTS \<equiv> 53"
abbreviation (input) CMD_INCR :: nat where "CMD_INCR \<equiv> 64"
abbreviation (input) CMD_DECR :: nat where "CMD_DECR \<equiv> 65"
abbreviation (input) CMD_GETSET :: nat where "CMD_GETSET \<equiv> 66"
abbreviation (input) CMD_KEYS :: nat where "CMD_KEYS \<equiv> 67"
abbreviation (input) CMD_SCAN :: nat where "CMD_SCAN \<equiv> 68"

abbreviation (input) RESP_OK :: char where "RESP_OK \<equiv> CHR 0x00"
abbreviation (input) RESP_ERROR :: char where "RESP_ERROR \<equiv> CHR 0x01"
abbreviation (input) RESP_NOT_FOUND :: char where "RESP_NOT_FOUND \<equiv> CHR 0x02"

datatype DataType = TYPE_STRING | TYPE_LIST | TYPE_SET | TYPE_HASH

text \<open>
  The value slot of an item with its tag. A \<^verbatim>\<open>List\<close> is the sequence of its node
  values from \<^verbatim>\<open>head\<close> to \<^verbatim>\<open>tail\<close>, a \<^verbatim>\<open>Set\<close> its \<^verbatim>\<open>members\<close>, a \<^verbatim>\<open>Hash\<close>
  its \<^verbatim>\<open>fields\<close>.
\<close>

datatype cache_value =
    VString bytes
  | VList "bytes list"
  | VSet "string fset"
  | VHash "(string, bytes) fmap"

record CacheItem =
  Data :: cache_value
  ExpiresAt :: int
  CreatedAt :: int

fun type_of :: "cache_value \<Rightarrow> DataType" where
  "type_of (VString _) = TYPE_STRING"
| "type_of (VList _) = TYPE_LIST"
| "type_of (VSet _) = TYPE_SET"
| "type_of (VHash _) = TYPE_HASH"

definition DataType_of :: "CacheItem \<Rightarrow> DataType" where
  "DataType_of item = type_of (Data item)"

record server =
  storage :: "(string, CacheItem) fmap"
  ttlIndex :: "(string, int) fmap"

definition NewGoFastServer :: server where
  "NewGoFastServer = \<lparr>storage = fmempty, ttlIndex = fmempty\<rparr>"

text \<open>The test \<^verbatim>\<open>item.ExpiresAt > 0 && item.ExpiresAt <= now\<close>.\<close>

definition expired :: "CacheItem \<Rightarrow> int \<Rightarrow> bool" where
  "expired item now \<longleftrightarrow> 0 < ExpiresAt item \<and> ExpiresAt item \<le> now"

text \<open>
  \<^verbatim>\<open>s.storage.Delete(key)\<close> followed by \<^verbatim>\<open>delete(s.ttlIndex, key)\<close>.
\<close>

definition evict :: "string \<Rightarrow> server \<Rightarrow> server" where
  "evict key s = s\<lparr>storage := fmdrop key (storage s), ttlIndex := fmdrop key (ttlIndex s)\<rparr>"

section \<open>Responses (protocol.go, createResponse)\<close>

definition createResponse :: "char \<Rightarrow> bytes \<Rightarrow> bytes" where
  "createResponse status data = status # PutUint32 (length data) @ data"

definition WRONGTYPE :: bytes where
  "WRONGTYPE = ''WRONGTYPE Operation against a key holding the wrong kind of value''"

definition NOT_INTEGER :: bytes where
  "NOT_INTEGER = ''ERR value is not an integer or out of range''"

section \<open>The basic commands (protocol.go, processCommand)\<close>

text \<open>
  The cases of \<^verbatim>\<open>processCommand\<close> that are written inline in the source;
  \<^verbatim>\<open>processIndividualCommand\<close> repeats them word for word.
\<close>

definition cmdSet :: "Message \<Rightarrow> int \<Rightarrow> server \<Rightarrow> server \<times> bytes" where
  "cmdSet msg now s =
     (let key = Key msg;
          item = \<lparr>Data = VString (Value msg), ExpiresAt = 0, CreatedAt = now\<rparr>;
          (item, s) =
            (if 0 < TTL msg
             then let item = item\<lparr>ExpiresAt := wrap64 (now + int (TTL msg))\<rparr>
                  in (item, s\<lparr>ttlIndex := fmupd key (ExpiresAt item) (ttlIndex s)\<rparr>)
             else (item, s))
      in (s\<lparr>storage := fmupd key item (storage s)\<rparr>, createResponse RESP_OK []))"

definition cmdGet :: "Message \<Rightarrow> int \<Rightarrow> server \<Rightarrow> server \<times> bytes" where
  "cmdGet msg now s =
     (let key = Key msg in
      case fmlookup (storage s) key of
        None \<Rightarrow> (s, createResponse RESP_NOT_FOUND [])
      | Some item \<Rightarrow>
          if expired item now then (evict key s, createResponse RESP_NOT_FOUND [])
          else (case Data item of
                  VString v \<Rightarrow> (s, createResponse RESP_OK v)
                | _ \<Rightarrow> (s, createResponse RESP_ERROR WRONGTYPE)))"

definition cmdDel :: "Message \<Rightarrow> int \<Rightarrow> server \<Rightarrow> server \<times> bytes" where
  "cmdDel msg now s =
     (let key = Key msg in
      case fmlookup (storage s) key of
        Some _ \<Rightarrow> (evict key s, createResponse RESP_OK ''1'')
      | None \<Rightarrow> (s, createResponse RESP_OK ''0''))"

definition cmdExists :: "Message \<Rightarrow> int \<Rightarrow> server \<Rightarrow> server \<times> bytes" where
  "cmdExists msg now s =
     (let key = Key msg in
      case fmlookup (storage s) key of
        None \<Rightarrow> (s, createResponse RESP_OK ''0'')
      | Some item \<Rightarrow>
          if expired item now then (evict key s, createResponse RESP_OK ''0'')
          else (s, createResponse RESP_OK ''1''))"

definition cmdExpire :: "Message \<Rightarrow> int \<Rightarrow> server \<Rightarrow> server \<times> bytes" where
  "cmdExpire msg now s =
     (let key = Key msg in
      case fmlookup (storage s) key of
        None \<Rightarrow> (s, createResponse RESP_OK ''0'')
      | Some item \<Rightarrow>
          let (item, s) =
                (if 0 < TTL msg
                 then let item = item\<lparr>ExpiresAt := wrap64 (now + int (TTL msg))\<rparr>
                      in (item, s\<lparr>ttlIndex := fmupd key (ExpiresAt item) (ttlIndex s)\<rparr>)
                 else (item\<lparr>ExpiresAt := 0\<rparr>, s\<lparr>ttlIndex := fmdrop key (ttlIndex s)\<rparr>))
          in (s\<lparr>storage := fmupd key item (storage s)\<rparr>, createResponse RESP_OK ''1''))"

definition cmdTTL :: "Message \<Rightarrow> int \<Rightarrow> server \<Rightarrow> server \<times> bytes" where
  "cmdTTL msg now s =
     (let key = Key msg in
      case fmlookup (storage s) key of
        None \<Rightarrow> (s, createResponse RESP_OK ''-2'')
      | Some item \<Rightarrow>
          if ExpiresAt item = 0 then (s, createResponse RESP_OK ''-1'')
          else let ttl = wrap64 (ExpiresAt item - now)
               in if ttl \<le> 0 then (evict key s, createResponse RESP_OK ''-2'')
                  else (s, createResponse RESP_OK (FormatInt ttl)))"

section \<open>The containers\<close>

text \<open>
  \<^verbatim>\<open>List\<close>: \<^verbatim>\<open>LeftPush\<close> and \<^verbatim>\<open>RightPush\<close> return the new length with the
  list; the pops return \<open>None\<close> for \<^verbatim>\<open>(nil, false)\<close>.
\<close>

definition LeftPush :: "bytes list \<Rightarrow> bytes \<Rightarrow> bytes list \<times> int" where
  "LeftPush l v = (v # l, int (length l) + 1)"

definition RightPush :: "bytes list \<Rightarrow> bytes \<Rightarrow> bytes list \<times> int" where
  "RightPush l v = (l @ [v], int (length l) + 1)"

fun LeftPop :: "bytes list \<Rightarrow> (bytes \<times> bytes list) option" where
  "LeftPop [] = None"
| "LeftPop (v # l) = Some (v, l)"

definition RightPop :: "bytes list \<Rightarrow> (bytes \<times> bytes list) option" where
  "RightPop l = (if l = [] then None else Some (last l, butlast l))"

definition Index :: "bytes list \<Rightarrow> int \<Rightarrow> bytes option" where
  "Index l index =
     (if index < 0 \<or> int (length l) \<le> index then None else Some (l ! nat index))"

definition Range :: "bytes list \<Rightarrow> int \<Rightarrow> int \<Rightarrow> bytes list" where
  "Range l start end =
     (let start = (if start < 0 then 0 else start);
          end = (if int (length l) \<le> end then int (length l) - 1 else end)
      in if end < start then []
         else take (nat (end - start + 1)) (drop (nat start) l))"

text \<open>\<^verbatim>\<open>Set\<close>: \<^verbatim>\<open>Add\<close> and \<^verbatim>\<open>Remove\<close> return the set with the reported flag.\<close>

definition Add :: "string fset \<Rightarrow> string \<Rightarrow> string fset \<times> bool" where
  "Add members member = (finsert member members, member |\<notin>| members)"

definition Remove :: "string fset \<Rightarrow> string \<Rightarrow> string fset \<times> bool" where
  "Remove members member =
     (if member |\<in>| members then (members |-| {|member|}, True) else (members, False))"

definition Card :: "string fset \<Rightarrow> int" where
  "Card members = int (fcard members)"

text \<open>
  Go leaves the iteration order of a map open; where the source ranges over
  one (\<^verbatim>\<open>Members\<close>, \<^verbatim>\<open>encodeHashMap\<close>, \<^verbatim>\<open>storage.Range\<close>) the embedding visits
  the keys in ascending order.
\<close>

definition Members :: "string fset \<Rightarrow> string list" where
  "Members members = sorted_list_of_fset members"

text \<open>\<^verbatim>\<open>Hash\<close>.\<close>

definition HSet :: "(string, bytes) fmap \<Rightarrow> string \<Rightarrow> bytes \<Rightarrow> (string, bytes) fmap \<times> bool" where
  "HSet flds field v = (fmupd field v flds, fmlookup flds field = None)"

definition HDel :: "(string, bytes) fmap \<Rightarrow> string \<Rightarrow> (string, bytes) fmap \<times> bool" where
  "HDel flds field =
     (if fmlookup flds field \<noteq> None then (fmdrop field flds, True) else (flds, False))"

definition HLen :: "(string, bytes) fmap \<Rightarrow> int" where
  "HLen flds = int (fcard (fmdom flds))"

section \<open>The encoders\<close>

definition encodeArray :: "bytes list \<Rightarrow> bytes" where
  "encodeArray values =
     PutUint32 (length values) @ concat (map (\<lambda>v. PutUint32 (length v) @ v) values)"

definition encodeStringArray :: "string list \<Rightarrow> bytes" where
  "encodeStringArray values = encodeArray values"

definition encodeHashMap :: "(string, bytes) fmap \<Rightarrow> bytes" where
  "encodeHashMap flds =
     PutUint32 (fcard (fmdom flds)) @
     concat (map (\<lambda>(field, v). PutUint32 (length field) @ field @ PutUint32 (length v) @ v)
                 (sorted_list_of_fmap flds))"

text \<open>A \<^verbatim>\<open>nil\<close> value is \<open>None\<close>.\<close>

definition encodeMGetResponse :: "bytes option list \<Rightarrow> bytes" where
  "encodeMGetResponse values =
     PutUint32 (length values) @
     concat (map (\<lambda>val. case val of
                           None \<Rightarrow> PutUint32 4294967295
                         | Some v \<Rightarrow> PutUint32 (length v) @ v) values)"

definition encodePipelineResponse :: "bytes list \<Rightarrow> bytes" where
  "encodePipelineResponse responses = PutUint32 (length responses) @ concat responses"

definition encodeScanResponse :: "nat \<Rightarrow> string list \<Rightarrow> bytes" where
  "encodeScanResponse cursor keys =
     PutUint32 cursor @ PutUint32 (length keys) @
     concat (map (\<lambda>key. PutUint32 (length key) @ key) keys)"

section \<open>The container handlers\<close>

text \<open>
  The source mutates a container through the pointer held by the item of the
  key; here the item of the key receives the new contents.
\<close>

definition mutate :: "string \<Rightarrow> cache_value \<Rightarrow> server \<Rightarrow> server" where
  "mutate key d s =
     (case fmlookup (storage s) key of
        None \<Rightarrow> s
      | Some item \<Rightarrow> s\<lparr>storage := fmupd key (item\<lparr>Data := d\<rparr>) (storage s)\<rparr>)"

definition store_new :: "string \<Rightarrow> cache_value \<Rightarrow> int \<Rightarrow> server \<Rightarrow> server" where
  "store_new key d now s =
     s\<lparr>storage := fmupd key \<lparr>Data = d, ExpiresAt = 0, CreatedAt = now\<rparr> (storage s)\<rparr>"

definition handleListPush :: "string \<Rightarrow> bytes \<Rightarrow> bool \<Rightarrow> int \<Rightarrow> server \<Rightarrow> server \<times> bytes" where
  "handleListPush key v isLeft now s =
     (let found =
            (case fmlookup (storage s) key of
               None \<Rightarrow> Inr (None, s)
             | Some item \<Rightarrow>
                 if expired item now then Inr (None, evict key s)
                 else (case Data item of
                         VList l \<Rightarrow> Inr (Some l, s)
                       | _ \<Rightarrow> Inl (createResponse RESP_ERROR WRONGTYPE)))
      in case found of
           Inl resp \<Rightarrow> (s, resp)
         | Inr (found_list, s) \<Rightarrow>
             let (l, s) = (case found_list of
                             None \<Rightarrow> ([], store_new key (VList []) now s)
                           | Some l \<Rightarrow> (l, s));
                 (l, len) = (if isLeft then LeftPush l v else RightPush l v)
             in (mutate key (VList l) s, createResponse RESP_OK (FormatInt len)))"

definition handleListPop :: "string \<Rightarrow> bool \<Rightarrow> int \<Rightarrow> server \<Rightarrow> server \<times> bytes" where
  "handleListPop key isLeft now s =
     (case fmlookup (storage s) key of
        None \<Rightarrow> (s, createResponse RESP_NOT_FOUND [])
      | Some item \<Rightarrow>
          if expired item now then (evict key s, createResponse RESP_NOT_FOUND [])
          else (case Data item of
                  VList l \<Rightarrow>
                    (case (if isLeft then LeftPop l else RightPop l) of
                       None \<Rightarrow> (s, createResponse RESP_NOT_FOUND [])
                     | Some (v, l) \<Rightarrow>
                         let s = mutate key (VList l) s;
                             s = (if int (length l) = 0 then evict key s else s)
                         in (s, createResponse RESP_OK v))
                | _ \<Rightarrow> (s, createResponse RESP_ERROR WRONGTYPE)))"

definition handleListLen :: "string \<Rightarrow> int \<Rightarrow> server \<Rightarrow> server \<times> bytes" where
  "handleListLen key now s =
     (case fmlookup (storage s) key of
        None \<Rightarrow> (s, createResponse RESP_OK ''0'')
      | Some item \<Rightarrow>
          if expired item now then (evict key s, createResponse RESP_OK ''0'')
          else (case Data item of
                  VList l \<Rightarrow> (s, createResponse RESP_OK (FormatInt (int (length l))))
                | _ \<Rightarrow> (s, createResponse RESP_ERROR WRONGTYPE)))"

definition handleListIndex :: "string \<Rightarrow> int \<Rightarrow> int \<Rightarrow> server \<Rightarrow> server \<times> bytes" where
  "handleListIndex key index now s =
     (case fmlookup (storage s) key of
        None \<Rightarrow> (s, createResponse RESP_NOT_FOUND [])
      | Some item \<Rightarrow>
          if expired item now then (evict key s, createResponse RESP_NOT_FOUND [])
          else (case Data item of
                  VList l \<Rightarrow>
                    (case Index l index of
                       None \<Rightarrow> (s, createResponse RESP_NOT_FOUND [])
                     | Some v \<Rightarrow> (s, createResponse RESP_OK v))
                | _ \<Rightarrow> (s, createResponse RESP_ERROR WRONGTYPE)))"

definition handleListRange :: "string \<Rightarrow> int \<Rightarrow> int \<Rightarrow> int \<Rightarrow> server \<Rightarrow> server \<times> bytes" where
  "handleListRange key start end now s =
     (case fmlookup (storage s) key of
        None \<Rightarrow> (s, createResponse RESP_OK (encodeArray []))
      | Some item \<Rightarrow>
          if expired item now then (evict key s, createResponse RESP_OK (encodeArray []))
          else (case Data item of
                  VList l \<Rightarrow> (s, createResponse RESP_OK (encodeArray (Range l start end)))
                | _ \<Rightarrow> (s, createResponse RESP_ERROR WRONGTYPE)))"

definition handleSetAdd :: "string \<Rightarrow> string \<Rightarrow> int \<Rightarrow> server \<Rightarrow> server \<times> bytes" where
  "handleSetAdd key member now s =
     (let found =
            (case fmlookup (storage s) key of
               None \<Rightarrow> Inr (None, s)
             | Some item \<Rightarrow>
                 if expired item now then Inr (None, evict key s)
                 else (case Data item of
                         VSet m \<Rightarrow> Inr (Some m, s)
                       | _ \<Rightarrow> Inl (createResponse RESP_ERROR WRONGTYPE)))
      in case found of
           Inl resp \<Rightarrow> (s, resp)
         | Inr (found_set, s) \<Rightarrow>
             let (m, s) = (case found_set of
                             None \<Rightarrow> ({||}, store_new key (VSet {||}) now s)
                           | Some m \<Rightarrow> (m, s));
                 (m, wasNew) = Add m member
             in (mutate key (VSet m) s,
                 if wasNew then createResponse RESP_OK ''1'' else createResponse RESP_OK ''0''))"

definition handleSetRem :: "string \<Rightarrow> string \<Rightarrow> int \<Rightarrow> server \<Rightarrow> server \<times> bytes" where
  "handleSetRem key member now s =
     (case fmlookup (storage s) key of
        None \<Rightarrow> (s, createResponse RESP_OK ''0'')
      | Some item \<Rightarrow>
          if expired item now then (evict key s, createResponse RESP_OK ''0'')
          else (case Data item of
                  VSet m \<Rightarrow>
                    let (m, removed) = Remove m member;
                        s = mutate key (VSet m) s;
                        s = (if Card m = 0 then evict key s else s)
                    in (s, if removed then createResponse RESP_OK ''1''
                           else createResponse RESP_OK ''0'')
                | _ \<Rightarrow> (s, createResponse RESP_ERROR WRONGTYPE)))"

definition handleSetMembers :: "string \<Rightarrow> int \<Rightarrow> server \<Rightarrow> server \<times> bytes" where
  "handleSetMembers key now s =
     (case fmlookup (storage s) key of
        None \<Rightarrow> (s, createResponse RESP_OK (encodeStringArray []))
      | Some item \<Rightarrow>
          if expired item now then (evict key s, createResponse RESP_OK (encodeStringArray []))
          else (case Data item of
                  VSet m \<Rightarrow> (s, createResponse RESP_OK (encodeStringArray (Members m)))
                | _ \<Rightarrow> (s, createResponse RESP_ERROR WRONGTYPE)))"

definition handleSetCard :: "string \<Rightarrow> int \<Rightarrow> server \<Rightarrow> server \<times> bytes" where
  "handleSetCard key now s =
     (case fmlookup (storage s) key of
        None \<Rightarrow> (s, createResponse RESP_OK ''0'')
      | Some item \<Rightarrow>
          if expired item now then (evict key s, createResponse RESP_OK ''0'')
          else (case Data item of
                  VSet m \<Rightarrow> (s, createResponse RESP_OK (FormatInt (Card m)))
                | _ \<Rightarrow> (s, createResponse RESP_ERROR WRONGTYPE)))"

definition handleSetIsMember :: "string \<Rightarrow> string \<Rightarrow> int \<Rightarrow> server \<Rightarrow> server \<times> bytes" where
  "handleSetIsMember key member now s =
     (case fmlookup (storage s) key of
        None \<Rightarrow> (s, createResponse RESP_OK ''0'')
      | Some item \<Rightarrow>
          if expired item now then (evict key s, createResponse RESP_OK ''0'')
          else (case Data item of
                  VSet m \<Rightarrow>
                    (s, if member |\<in>| m then createResponse RESP_OK ''1''
                        else createResponse RESP_OK ''0'')
                | _ \<Rightarrow> (s, createResponse RESP_ERROR WRONGTYPE)))"

text \<open>
  \<^verbatim>\<open>handleHashSet\<close> first splits \<open>data\<close> into field and value. The sum
  \<^verbatim>\<open>4+fieldLen\<close> is computed in \<^verbatim>\<open>uint32\<close>; when it wraps below 4 the slice
  expression \<^verbatim>\<open>data[4 : 4+fieldLen]\<close> panics.
\<close>

definition handleHashSet :: "string \<Rightarrow> bytes \<Rightarrow> int \<Rightarrow> server \<Rightarrow> (server \<times> bytes) option" where
  "handleHashSet key data now s =
     (if length data < 4 then Some (s, createResponse RESP_ERROR ''Invalid HSET data'')
      else do {
        hd4 \<leftarrow> slice data 0 4;
        fieldLen \<leftarrow> Uint32 hd4;
        let hi = (4 + fieldLen) mod 4294967296;
        if length data < hi then Some (s, createResponse RESP_ERROR ''Invalid HSET data'')
        else do {
          field \<leftarrow> slice data 4 hi;
          v \<leftarrow> slice data hi (length data);
          let found =
                (case fmlookup (storage s) key of
                   None \<Rightarrow> Inr (None, s)
                 | Some item \<Rightarrow>
                     if expired item now then Inr (None, evict key s)
                     else (case Data item of
                             VHash h \<Rightarrow> Inr (Some h, s)
                           | _ \<Rightarrow> Inl (createResponse RESP_ERROR WRONGTYPE)));
          Some (case found of
                  Inl resp \<Rightarrow> (s, resp)
                | Inr (found_hash, s) \<Rightarrow>
                    let (h, s) = (case found_hash of
                                    None \<Rightarrow> (fmempty, store_new key (VHash fmempty) now s)
                                  | Some h \<Rightarrow> (h, s));
                        (h, wasNew) = HSet h field v
                    in (mutate key (VHash h) s,
                        if wasNew then createResponse RESP_OK ''1''
                        else createResponse RESP_OK ''0''))
        }
      })"

definition handleHashGet :: "string \<Rightarrow> string \<Rightarrow> int \<Rightarrow> server \<Rightarrow> server \<times> bytes" where
  "handleHashGet key field now s =
     (case fmlookup (storage s) key of
        None \<Rightarrow> (s, createResponse RESP_NOT_FOUND [])
      | Some item \<Rightarrow>
          if expired item now then (evict key s, createResponse RESP_NOT_FOUND [])
          else (case Data item of
                  VHash h \<Rightarrow>
                    (case fmlookup h field of
                       None \<Rightarrow> (s, createResponse RESP_NOT_FOUND [])
                     | Some v \<Rightarrow> (s, createResponse RESP_OK v))
                | _ \<Rightarrow> (s, createResponse RESP_ERROR WRONGTYPE)))"

definition handleHashDel :: "string \<Rightarrow> string \<Rightarrow> int \<Rightarrow> server \<Rightarrow> server \<times> bytes" where
  "handleHashDel key field now s =
     (case fmlookup (storage s) key of
        None \<Rightarrow> (s, createResponse RESP_OK ''0'')
      | Some item \<Rightarrow>
          if expired item now then (evict key s, createResponse RESP_OK ''0'')
          else (case Data item of
                  VHash h \<Rightarrow>
                    let (h, removed) = HDel h field;
                        s = mutate key (VHash h) s;
                        s = (if HLen h = 0 then evict key s else s)
                    in (s, if removed then createResponse RESP_OK ''1''
                           else createResponse RESP_OK ''0'')
                | _ \<Rightarrow> (s, createResponse RESP_ERROR WRONGTYPE)))"

definition handleHashGetAll :: "string \<Rightarrow> int \<Rightarrow> server \<Rightarrow> server \<times> bytes" where
  "handleHashGetAll key now s =
     (case fmlookup (storage s) key of
        None \<Rightarrow> (s, createResponse RESP_OK (encodeHashMap fmempty))
      | Some item \<Rightarrow>
          if expired item now then (evict key s, createResponse RESP_OK (encodeHashMap fmempty))
          else (case Data item of
                  VHash h \<Rightarrow> (s, createResponse RESP_OK (encodeHashMap h))
                | _ \<Rightarrow> (s, createResponse RESP_ERROR WRONGTYPE)))"

definition handleHashLen :: "string \<Rightarrow> int \<Rightarrow> server \<Rightarrow> server \<times> bytes" where
  "handleHashLen key now s =
     (case fmlookup (storage s) key of
        None \<Rightarrow> (s, createResponse RESP_OK ''0'')
      | Some item \<Rightarrow>
          if expired item now then (evict key s, createResponse RESP_OK ''0'')
          else (case Data item of
                  VHash h \<Rightarrow> (s, createResponse RESP_OK (FormatInt (HLen h)))
                | _ \<Rightarrow> (s, createResponse RESP_ERROR WRONGTYPE)))"

definition handleHashExists :: "string \<Rightarrow> string \<Rightarrow> int \<Rightarrow> server \<Rightarrow> server \<times> bytes" where
  "handleHashExists key field now s =
     (case fmlookup (storage s) key of
        None \<Rightarrow> (s, createResponse RESP_OK ''0'')
      | Some item \<Rightarrow>
          if expired item now then (evict key s, createResponse RESP_OK ''0'')
          else (case Data item of
                  VHash h \<Rightarrow>
                    (s, if fmlookup h field \<noteq> None then createResponse RESP_OK ''1''
                        else createResponse RESP_OK ''0'')
                | _ \<Rightarrow> (s, createResponse RESP_ERROR WRONGTYPE)))"

section \<open>INCR, DECR and GETSET\<close>

text \<open>
  \<^verbatim>\<open>handleIncr\<close> and \<^verbatim>\<open>handleDecr\<close> differ in the step only (\<open>+1\<close>, \<open>-1\<close>),
  which is the parameter \<open>delta\<close> of their common body. The new item takes the
  \<^verbatim>\<open>ExpiresAt\<close> of the item that was loaded whenever that is positive, also
  when the loaded item had expired and was evicted.
\<close>

definition incr_by :: "int \<Rightarrow> string \<Rightarrow> int \<Rightarrow> server \<Rightarrow> server \<times> bytes" where
  "incr_by delta key now s =
     (let existing = fmlookup (storage s) key;
          current =
            (case existing of
               None \<Rightarrow> Inr (0, s)
             | Some item \<Rightarrow>
                 if expired item now then Inr (0, evict key s)
                 else (case Data item of
                         VString v \<Rightarrow>
                           (case ParseInt v of
                              None \<Rightarrow> Inl (createResponse RESP_ERROR NOT_INTEGER)
                            | Some parsed \<Rightarrow> Inr (parsed, s))
                       | _ \<Rightarrow> Inl (createResponse RESP_ERROR WRONGTYPE)))
      in case current of
           Inl resp \<Rightarrow> (s, resp)
         | Inr (currentValue, s) \<Rightarrow>
             let newValue = wrap64 (currentValue + delta);
                 newValueStr = FormatInt newValue;
                 item = \<lparr>Data = VString newValueStr, ExpiresAt = 0, CreatedAt = now\<rparr>;
                 item = (case existing of
                           None \<Rightarrow> item
                         | Some existingItem \<Rightarrow>
                             if 0 < ExpiresAt existingItem
                             then item\<lparr>ExpiresAt := ExpiresAt existingItem\<rparr>
                             else item)
             in (s\<lparr>storage := fmupd key item (storage s)\<rparr>,
                 createResponse RESP_OK newValueStr))"

definition handleIncr :: "string \<Rightarrow> int \<Rightarrow> server \<Rightarrow> server \<times> bytes" where
  "handleIncr key now s = incr_by 1 key now s"

definition handleDecr :: "string \<Rightarrow> int \<Rightarrow> server \<Rightarrow> server \<times> bytes" where
  "handleDecr key now s = incr_by (- 1) key now s"

definition handleGetSet :: "string \<Rightarrow> bytes \<Rightarrow> int \<Rightarrow> server \<Rightarrow> server \<times> bytes" where
  "handleGetSet key newValue now s =
     (let found =
            (case fmlookup (storage s) key of
               None \<Rightarrow> Inr (None, 0, s)
             | Some item \<Rightarrow>
                 if expired item now then Inr (None, 0, evict key s)
                 else (case Data item of
                         VString v \<Rightarrow> Inr (Some v, ExpiresAt item, s)
                       | _ \<Rightarrow> Inl (createResponse RESP_ERROR WRONGTYPE)))
      in case found of
           Inl resp \<Rightarrow> (s, resp)
         | Inr (oldValue, preserveTTL, s) \<Rightarrow>
             let item = \<lparr>Data = VString newValue, ExpiresAt = preserveTTL, CreatedAt = now\<rparr>;
                 s = s\<lparr>storage := fmupd key item (storage s)\<rparr>
             in (case oldValue of
                   Some v \<Rightarrow> (s, createResponse RESP_OK v)
                 | None \<Rightarrow> (s, createResponse RESP_NOT_FOUND [])))"

section \<open>MGET and MSET\<close>

text \<open>
  The key-parsing loop of \<^verbatim>\<open>handleMGet\<close>: \<open>n\<close> keys are still to be read at
  \<open>offset\<close>. \<open>Inl\<close> carries the text of the error response.
\<close>

fun mget_keys :: "bytes \<Rightarrow> nat \<Rightarrow> nat \<Rightarrow> (string + string list) option" where
  "mget_keys data 0 offset = Some (Inr [])"
| "mget_keys data (Suc n) offset =
     (if length data < offset + 4
      then Some (Inl ''Invalid MGET data - insufficient data'')
      else do {
        b \<leftarrow> slice data offset (offset + 4);
        keyLen \<leftarrow> Uint32 b;
        let offset = offset + 4;
        if length data < offset + keyLen
        then Some (Inl ''Invalid MGET data - key too long'')
        else do {
          key \<leftarrow> slice data offset (offset + keyLen);
          rest \<leftarrow> mget_keys data n (offset + keyLen);
          Some (case rest of Inl e \<Rightarrow> Inl e | Inr keys \<Rightarrow> Inr (key # keys))
        }
      })"

text \<open>The fetch loop of \<^verbatim>\<open>handleMGet\<close>.\<close>

fun mget_values :: "string list \<Rightarrow> int \<Rightarrow> server \<Rightarrow> server \<times> bytes option list" where
  "mget_values [] now s = (s, [])"
| "mget_values (key # keys) now s =
     (let (v, s) =
            (case fmlookup (storage s) key of
               Some item \<Rightarrow>
                 if expired item now then (None, evict key s)
                 else (case Data item of
                         VString v \<Rightarrow> (Some v, s)
                       | _ \<Rightarrow> (None, s))
             | None \<Rightarrow> (None, s));
          (s, vs) = mget_values keys now s
      in (s, v # vs))"

definition handleMGet :: "bytes \<Rightarrow> int \<Rightarrow> server \<Rightarrow> (server \<times> bytes) option" where
  "handleMGet data now s =
     (if length data < 4 then Some (s, createResponse RESP_ERROR ''Invalid MGET data'')
      else do {
        b \<leftarrow> slice data 0 4;
        count \<leftarrow> Uint32 b;
        if count = 0 then Some (s, createResponse RESP_OK (encodeMGetResponse []))
        else do {
          parsed \<leftarrow> mget_keys data count 4;
          Some (case parsed of
                  Inl e \<Rightarrow> (s, createResponse RESP_ERROR e)
                | Inr keys \<Rightarrow>
                    let (s, vs) = mget_values keys now s
                    in (s, createResponse RESP_OK (encodeMGetResponse vs)))
        }
      })"

text \<open>
  The loop of \<^verbatim>\<open>handleMSet\<close>: \<open>n\<close> pairs are still to be read at \<open>offset\<close>,
  \<open>successCount\<close> have been stored. A parse error returns at once and keeps
  what was stored.
\<close>

fun mset_loop :: "bytes \<Rightarrow> nat \<Rightarrow> nat \<Rightarrow> int \<Rightarrow> int \<Rightarrow> server \<Rightarrow> (server \<times> bytes) option" where
  "mset_loop data 0 offset successCount now s =
     Some (s, createResponse RESP_OK (FormatInt successCount))"
| "mset_loop data (Suc n) offset successCount now s =
     (if length data < offset + 4
      then Some (s, createResponse RESP_ERROR ''Invalid MSET data - insufficient key length'')
      else do {
        b \<leftarrow> slice data offset (offset + 4);
        keyLen \<leftarrow> Uint32 b;
        let offset = offset + 4;
        if length data < offset + keyLen
        then Some (s, createResponse RESP_ERROR ''Invalid MSET data - key too long'')
        else do {
          key \<leftarrow> slice data offset (offset + keyLen);
          let offset = offset + keyLen;
          if length data < offset + 4
          then Some (s, createResponse RESP_ERROR ''Invalid MSET data - insufficient value length'')
          else do {
            b \<leftarrow> slice data offset (offset + 4);
            valueLen \<leftarrow> Uint32 b;
            let offset = offset + 4;
            if length data < offset + valueLen
            then Some (s, createResponse RESP_ERROR ''Invalid MSET data - value too long'')
            else do {
              v \<leftarrow> slice data offset (offset + valueLen);
              let offset = offset + valueLen;
              if length data < offset + 4
              then Some (s, createResponse RESP_ERROR ''Invalid MSET data - insufficient TTL'')
              else do {
                b \<leftarrow> slice data offset (offset + 4);
                ttl \<leftarrow> Uint32 b;
                let offset = offset + 4;
                let item = \<lparr>Data = VString v, ExpiresAt = 0, CreatedAt = now\<rparr>;
                let (item, s) =
                      (if 0 < ttl
                       then let item = item\<lparr>ExpiresAt := wrap64 (now + int ttl)\<rparr>
                            in (item, s\<lparr>ttlIndex := fmupd key (ExpiresAt item) (ttlIndex s)\<rparr>)
                       else (item, s));
                mset_loop data n offset (successCount + 1) now
                  (s\<lparr>storage := fmupd key item (storage s)\<rparr>)
              }
            }
          }
        }
      })"

definition handleMSet :: "bytes \<Rightarrow> int \<Rightarrow> server \<Rightarrow> (server \<times> bytes) option" where
  "handleMSet data now s =
     (if length data < 4 then Some (s, createResponse RESP_ERROR ''Invalid MSET data'')
      else do {
        b \<leftarrow> slice data 0 4;
        count \<leftarrow> Uint32 b;
        if count = 0 then Some (s, createResponse RESP_OK ''0'')
        else mset_loop data count 4 0 now s
      })"

section \<open>KEYS and SCAN\<close>

text \<open>
  The main loop of \<^verbatim>\<open>wildcardMatch\<close>; the result is the final value of \<open>j\<close>,
  or \<open>None\<close> where the source returns \<^verbatim>\<open>false\<close> from inside the loop.
\<close>

function wildcard_loop :: "string \<Rightarrow> string \<Rightarrow> nat \<Rightarrow> nat \<Rightarrow> int \<Rightarrow> nat \<Rightarrow> nat option" where
  "wildcard_loop pattern str i j starIdx match =
     (if i < length str then
        if j < length pattern \<and> (pattern ! j = CHR ''?'' \<or> pattern ! j = str ! i)
        then wildcard_loop pattern str (i + 1) (j + 1) starIdx match
        else if j < length pattern \<and> pattern ! j = CHR ''*''
        then wildcard_loop pattern str i (j + 1) (int j) i
        else if starIdx \<noteq> - 1
        then wildcard_loop pattern str (match + 1) (nat (starIdx + 1)) starIdx (match + 1)
        else None
      else Some j)"
  by pat_completeness auto
termination
  by (relation "measures
        [\<lambda>(pattern, str, i, j, starIdx, match).
            if match \<le> i then length str - match else length str + 1 + (match - i),
         \<lambda>(pattern, str, i, j, starIdx, match). length str - i,
         \<lambda>(pattern, str, i, j, starIdx, match). length pattern - j]")
     auto

declare wildcard_loop.simps [simp del]

text \<open>The loop that skips the remaining \<open>*\<close> of the pattern.\<close>

function skip_stars :: "string \<Rightarrow> nat \<Rightarrow> nat" where
  "skip_stars pattern j =
     (if j < length pattern \<and> pattern ! j = CHR ''*'' then skip_stars pattern (j + 1) else j)"
  by pat_completeness auto
termination
  by (relation "measure (\<lambda>(pattern, j). length pattern - j)") auto

declare skip_stars.simps [simp del]

definition wildcardMatch :: "string \<Rightarrow> string \<Rightarrow> bool" where
  "wildcardMatch pattern str =
     (case wildcard_loop pattern str 0 0 (- 1) 0 of
        None \<Rightarrow> False
      | Some j \<Rightarrow> skip_stars pattern j = length pattern)"

definition matchPattern :: "string \<Rightarrow> string \<Rightarrow> bool" where
  "matchPattern pattern key =
     (if pattern = [] \<or> pattern = ''*'' then True else wildcardMatch pattern key)"

text \<open>
  \<^verbatim>\<open>s.storage.Range\<close> visits every entry once; \<open>range_keys\<close> is the order of
  the visit, which the embedding takes in ascending order of the keys. For an
  expired key that they meet, \<^verbatim>\<open>handleKeys\<close> and \<^verbatim>\<open>handleScan\<close> only start a
  goroutine that will delete it: the key is still there when the handler
  returns, so the state they return is the state they were given.
\<close>

definition range_keys :: "server \<Rightarrow> string list" where
  "range_keys s = sorted_list_of_fset (fmdom (storage s))"

definition is_expired :: "server \<Rightarrow> int \<Rightarrow> string \<Rightarrow> bool" where
  "is_expired s now key =
     (case fmlookup (storage s) key of None \<Rightarrow> False | Some item \<Rightarrow> expired item now)"

definition handleKeys :: "string \<Rightarrow> int \<Rightarrow> server \<Rightarrow> server \<times> bytes" where
  "handleKeys pattern now s =
     (let visited = range_keys s;
          matchingKeys =
            filter (\<lambda>k. \<not> is_expired s now k \<and> matchPattern pattern k) visited
      in (s, createResponse RESP_OK (encodeStringArray matchingKeys)))"

text \<open>
  The snapshot of \<^verbatim>\<open>handleScan\<close>: the keys of the entries that have not
  expired, in the order of the visit, then sorted by \<^verbatim>\<open>sort.Strings\<close>.
\<close>

definition live_keys :: "server \<Rightarrow> int \<Rightarrow> string list" where
  "live_keys s now = sort (filter (\<lambda>k. \<not> is_expired s now k) (range_keys s))"

definition handleScan :: "nat \<Rightarrow> string \<Rightarrow> int \<Rightarrow> int \<Rightarrow> server \<Rightarrow> server \<times> bytes" where
  "handleScan cursor pattern count now s =
     (let keys = live_keys s now;
          startIndex = int cursor
      in if int (length keys) \<le> startIndex
         then (s, createResponse RESP_OK (encodeScanResponse 0 []))
         else
           let endIndex = startIndex + count;
               (endIndex, nextCursor) =
                 (if int (length keys) < endIndex then (int (length keys), 0)
                  else (endIndex, nat (endIndex mod 4294967296)));
               matchingKeys =
                 filter (matchPattern pattern)
                   (take (nat (endIndex - startIndex)) (drop (nat startIndex) keys))
           in (s, createResponse RESP_OK (encodeScanResponse nextCursor matchingKeys)))"

section \<open>The expiration sweeper\<close>

text \<open>One round of \<^verbatim>\<open>cleanupExpiredKeys\<close>: it reads the TTL index only.\<close>

definition evict_all :: "string list \<Rightarrow> server \<Rightarrow> server" where
  "evict_all keys s = fold evict keys s"

definition cleanupExpiredKeys :: "int \<Rightarrow> server \<Rightarrow> server" where
  "cleanupExpiredKeys now s =
     (let expiredKeys =
            filter (\<lambda>key. case fmlookup (ttlIndex s) key of
                             None \<Rightarrow> False
                           | Some expiresAt \<Rightarrow> expiresAt \<le> now)
                   (sorted_list_of_fset (fmdom (ttlIndex s)))
      in evict_all expiredKeys s)"

section \<open>The pipeline parser (parsePipelineMessage)\<close>

text \<open>
  The payload \<open>data\<close> of a pipeline is a slice of a pooled buffer: behind its
  length the backing array holds \<open>spare\<close>, the bytes that earlier uses of the
  buffer left there (none when \<^verbatim>\<open>BytePool.Get\<close> had to allocate). Go checks a
  slice expression \<^verbatim>\<open>data[lo:hi]\<close> against the capacity and an index
  expression \<^verbatim>\<open>data[i]\<close> against the length, so a slice expression that
  leaves \<open>data\<close> reads \<open>spare\<close> and panics only behind it.
\<close>

definition slice_cap :: "bytes \<Rightarrow> bytes \<Rightarrow> nat \<Rightarrow> nat \<Rightarrow> bytes option" where
  "slice_cap spare data lo hi =
     (if lo \<le> hi \<and> hi \<le> length data + length spare
      then Some (take (hi - lo) (drop lo (data @ spare))) else None)"

text \<open>
  \<open>get_u32 spare data offset\<close> is \<^verbatim>\<open>binary.BigEndian.Uint32(data[offset : offset+4])\<close>
  and \<open>get_bytes spare data offset n\<close> is a fresh buffer of \<open>n\<close> bytes filled by
  \<^verbatim>\<open>copy\<close> from \<^verbatim>\<open>data[offset : offset+n]\<close>. The parser does not compare a
  declared length with the bytes that are left of the frame or of the payload.
\<close>

definition get_u32 :: "bytes \<Rightarrow> bytes \<Rightarrow> nat \<Rightarrow> nat option" where
  "get_u32 spare data offset = do { b \<leftarrow> slice_cap spare data offset (offset + 4); Uint32 b }"

definition get_bytes :: "bytes \<Rightarrow> bytes \<Rightarrow> nat \<Rightarrow> nat \<Rightarrow> bytes option" where
  "get_bytes spare data offset n = slice_cap spare data offset (offset + n)"

definition get_byte :: "bytes \<Rightarrow> nat \<Rightarrow> nat option" where
  "get_byte data i = (if i < length data then Some (of_char (data ! i)) else None)"

text \<open>\<^verbatim>\<open>copy(dst[pos:], src)\<close>; the slice expression panics when \<open>pos\<close> is beyond \<open>dst\<close>.\<close>

definition copy_at :: "bytes \<Rightarrow> nat \<Rightarrow> bytes \<Rightarrow> bytes option" where
  "copy_at dst pos src =
     (if length dst < pos then None
      else Some (take pos dst @ take (length dst - pos) src @ drop (pos + length src) dst))"

text \<open>
  The packed value of HSET: a buffer of \<^verbatim>\<open>4+fieldLen+valueLen\<close> bytes (a
  \<^verbatim>\<open>uint32\<close> sum) that receives the field length, the field and the value.
\<close>

definition pack_hset :: "nat \<Rightarrow> bytes \<Rightarrow> bytes \<Rightarrow> nat \<Rightarrow> bytes option" where
  "pack_hset fieldLen fieldBytes v bufLen =
     (if bufLen < 4 then None
      else do {
        buf \<leftarrow> copy_at (replicate bufLen (CHR 0x00)) 0 (PutUint32 fieldLen);
        buf \<leftarrow> copy_at buf 4 fieldBytes;
        copy_at buf ((4 + fieldLen) mod 4294967296) v
      })"

datatype parse_result = ParseError nat string | Parsed Message nat

definition parse_key_only :: "bytes \<Rightarrow> bytes \<Rightarrow> nat \<Rightarrow> Message \<Rightarrow> Message option" where
  "parse_key_only spare data offset msg = do {
     keyLen \<leftarrow> get_u32 spare data offset;
     key \<leftarrow> get_bytes spare data (offset + 4) keyLen;
     Some (msg\<lparr>Key := key\<rparr>)
   }"

definition parse_key_u32 :: "bytes \<Rightarrow> bytes \<Rightarrow> nat \<Rightarrow> Message \<Rightarrow> Message option" where
  "parse_key_u32 spare data offset msg = do {
     keyLen \<leftarrow> get_u32 spare data offset;
     key \<leftarrow> get_bytes spare data (offset + 4) keyLen;
     ttl \<leftarrow> get_u32 spare data (offset + 4 + keyLen);
     Some (msg\<lparr>Key := key, TTL := ttl\<rparr>)
   }"

definition parse_key_value :: "bytes \<Rightarrow> bytes \<Rightarrow> nat \<Rightarrow> Message \<Rightarrow> Message option" where
  "parse_key_value spare data offset msg = do {
     keyLen \<leftarrow> get_u32 spare data offset;
     key \<leftarrow> get_bytes spare data (offset + 4) keyLen;
     valueLen \<leftarrow> get_u32 spare data (offset + 4 + keyLen);
     v \<leftarrow> get_bytes spare data (offset + 4 + keyLen + 4) valueLen;
     Some (msg\<lparr>Key := key, Value := v\<rparr>)
   }"

text \<open>
  The \<^verbatim>\<open>switch\<close> of \<^verbatim>\<open>parsePipelineMessage\<close>. Each of its returns carries
  \<^verbatim>\<open>endOffset\<close>, with the error (\<open>Inl\<close>, its text) or the message (\<open>Inr\<close>).
\<close>

definition parse_payload :: "bytes \<Rightarrow> bytes \<Rightarrow> nat \<Rightarrow> Message \<Rightarrow> int \<Rightarrow> (string + Message) option" where
  "parse_payload spare data offset msg remaining =
     (let command = Command msg in
      if command = CMD_SET then
        if remaining < 12 then Some (Inl ''invalid SET message in pipeline'')
        else do {
          keyLen \<leftarrow> get_u32 spare data offset;
          key \<leftarrow> get_bytes spare data (offset + 4) keyLen;
          ttl \<leftarrow> get_u32 spare data (offset + 4 + keyLen);
          valueLen \<leftarrow> get_u32 spare data (offset + 4 + keyLen + 4);
          v \<leftarrow> get_bytes spare data (offset + 4 + keyLen + 4 + 4) valueLen;
          Some (Inr (msg\<lparr>Key := key, Value := v, TTL := ttl\<rparr>))
        }
      else if command = CMD_EXPIRE then
        if remaining < 8 then Some (Inl ''invalid EXPIRE message in pipeline'')
        else map_option Inr (parse_key_u32 spare data offset msg)
      else if command \<in> {CMD_LPUSH, CMD_RPUSH, CMD_SADD, CMD_GETSET} then
        if remaining < 8 then Some (Inl ''invalid list/set operation in pipeline'')
        else map_option Inr (parse_key_value spare data offset msg)
      else if command = CMD_SCAN then
        if remaining < 8 then Some (Inl ''invalid SCAN message in pipeline'')
        else do {
          cursor \<leftarrow> get_u32 spare data offset;
          patternLen \<leftarrow> get_u32 spare data (offset + 4);
          pattern \<leftarrow> get_bytes spare data (offset + 8) patternLen;
          Some (Inr (msg\<lparr>Value := pattern, TTL := cursor\<rparr>))
        }
      else if command = CMD_HSET then
        if remaining < 12 then Some (Inl ''invalid HSET message in pipeline'')
        else do {
          keyLen \<leftarrow> get_u32 spare data offset;
          key \<leftarrow> get_bytes spare data (offset + 4) keyLen;
          fieldLen \<leftarrow> get_u32 spare data (offset + 4 + keyLen);
          fieldBytes \<leftarrow> get_bytes spare data (offset + 4 + keyLen + 4) fieldLen;
          valueLen \<leftarrow> get_u32 spare data (offset + 4 + keyLen + 4 + fieldLen);
          v \<leftarrow> get_bytes spare data (offset + 4 + keyLen + 4 + fieldLen + 4) valueLen;
          packed \<leftarrow> pack_hset fieldLen fieldBytes v ((4 + fieldLen + valueLen) mod 4294967296);
          Some (Inr (msg\<lparr>Key := key, Value := packed\<rparr>))
        }
      else if command \<in> {CMD_HGET, CMD_HDEL, CMD_HEXISTS} then
        if remaining < 8 then Some (Inl ''invalid hash field operation in pipeline'')
        else map_option Inr (parse_key_value spare data offset msg)
      else if command = CMD_LINDEX then
        if remaining < 8 then Some (Inl ''invalid LINDEX message in pipeline'')
        else map_option Inr (parse_key_u32 spare data offset msg)
      else if command = CMD_LRANGE then
        if remaining < 12 then Some (Inl ''invalid LRANGE message in pipeline'')
        else do {
          m \<leftarrow> parse_key_u32 spare data offset msg;
          endBytes \<leftarrow> slice_cap spare data (offset + 4 + length (Key m) + 4)
                                           (offset + 4 + length (Key m) + 4 + 4);
          Some (Inr (m\<lparr>Value := endBytes\<rparr>))
        }
      else if command \<in> {CMD_LPOP, CMD_RPOP, CMD_SREM, CMD_SISMEMBER} then do {
          keyLen \<leftarrow> get_u32 spare data offset;
          key \<leftarrow> get_bytes spare data (offset + 4) keyLen;
          let remainingAfterKey = remaining - 4 - int keyLen;
          if 0 < remainingAfterKey \<and> (command = CMD_SREM \<or> command = CMD_SISMEMBER)
          then do {
            valueLen \<leftarrow> get_u32 spare data (offset + 4 + keyLen);
            v \<leftarrow> get_bytes spare data (offset + 4 + keyLen + 4) valueLen;
            Some (Inr (msg\<lparr>Key := key, Value := v\<rparr>))
          }
          else Some (Inr (msg\<lparr>Key := key\<rparr>))
        }
      else if command \<in> {CMD_GET, CMD_DEL, CMD_EXISTS, CMD_TTL, CMD_LLEN, CMD_SMEMBERS,
                          CMD_SCARD, CMD_HGETALL, CMD_HLEN, CMD_INCR, CMD_DECR, CMD_KEYS} then
        if remaining < 4 then Some (Inl ''invalid key-only message in pipeline'')
        else map_option Inr (parse_key_only spare data offset msg)
      else Some (Inl (''unsupported command in pipeline: '' @ FormatInt (int command))))"

definition parsePipelineMessage :: "bytes \<Rightarrow> bytes \<Rightarrow> nat \<Rightarrow> parse_result option" where
  "parsePipelineMessage spare data offset =
     (if length data < offset + 6
      then Some (ParseError offset ''insufficient data for message header'')
      else do {
        msgLen \<leftarrow> get_u32 spare data offset;
        let offset = offset + 4;
        if length data < offset + msgLen
        then Some (ParseError offset ''message length exceeds available data'')
        else do {
          version \<leftarrow> get_byte data offset;
          command \<leftarrow> get_byte data (offset + 1);
          let offset = offset + 2;
          let msg = \<lparr>Length = msgLen, Version = version, Command = command,
                     Key = [], Value = [], TTL = 0\<rparr>;
          let remaining = int msgLen - 2;
          let endOffset = nat (int offset + remaining);
          parsed \<leftarrow> parse_payload spare data offset msg remaining;
          Some (case parsed of
                  Inl err \<Rightarrow> ParseError endOffset err
                | Inr m \<Rightarrow> Parsed m endOffset)
        }
      })"

section \<open>The dispatchers\<close>

text \<open>
  \<^verbatim>\<open>processIndividualCommand\<close>. The cases LRANGE and HSET can panic: LRANGE
  decodes the first four bytes of the value, HSET slices its packed value.
\<close>

definition processIndividualCommand :: "Message \<Rightarrow> int \<Rightarrow> server \<Rightarrow> (server \<times> bytes) option" where
  "processIndividualCommand msg now s =
     (let key = Key msg; command = Command msg in
      if command = CMD_SET then Some (cmdSet msg now s)
      else if command = CMD_GET then Some (cmdGet msg now s)
      else if command = CMD_DEL then Some (cmdDel msg now s)
      else if command = CMD_EXISTS then Some (cmdExists msg now s)
      else if command = CMD_EXPIRE then Some (cmdExpire msg now s)
      else if command = CMD_TTL then Some (cmdTTL msg now s)
      else if command = CMD_LPUSH then Some (handleListPush key (Value msg) True now s)
      else if command = CMD_RPUSH then Some (handleListPush key (Value msg) False now s)
      else if command = CMD_LPOP then Some (handleListPop key True now s)
      else if command = CMD_RPOP then Some (handleListPop key False now s)
      else if command = CMD_LLEN then Some (handleListLen key now s)
      else if command = CMD_SADD then Some (handleSetAdd key (Value msg) now s)
      else if command = CMD_SREM then Some (handleSetRem key (Value msg) now s)
      else if command = CMD_SMEMBERS then Some (handleSetMembers key now s)
      else if command = CMD_SCARD then Some (handleSetCard key now s)
      else if command = CMD_SISMEMBER then Some (handleSetIsMember key (Value msg) now s)
      else if command = CMD_HSET then handleHashSet key (Value msg) now s
      else if command = CMD_HGET then Some (handleHashGet key (Value msg) now s)
      else if command = CMD_HDEL then Some (handleHashDel key (Value msg) now s)
      else if command = CMD_HGETALL then Some (handleHashGetAll key now s)
      else if command = CMD_HLEN then Some (handleHashLen key now s)
      else if command = CMD_HEXISTS then Some (handleHashExists key (Value msg) now s)
      else if command = CMD_LINDEX then Some (handleListIndex key (int (TTL msg)) now s)
      else if command = CMD_LRANGE then do {
        end \<leftarrow> Uint32 (Value msg);
        Some (handleListRange key (int (TTL msg)) (int end) now s)
      }
      else if command = CMD_INCR then Some (handleIncr key now s)
      else if command = CMD_DECR then Some (handleDecr key now s)
      else if command = CMD_GETSET then Some (handleGetSet key (Value msg) now s)
      else if command = CMD_KEYS then Some (handleKeys (Value msg) now s)
      else if command = CMD_SCAN then Some (handleScan (TTL msg) (Value msg) 10 now s)
      else Some (s, createResponse RESP_ERROR ''Unknown command in pipeline''))"

text \<open>
  The loop of \<^verbatim>\<open>handlePipeline\<close>: \<open>n\<close> slots are still to be filled, the next
  frame is looked for at \<open>offset\<close>. The result lists the responses in slot order.
\<close>

fun pipeline_loop ::
  "bytes \<Rightarrow> bytes \<Rightarrow> nat \<Rightarrow> nat \<Rightarrow> int \<Rightarrow> server \<Rightarrow> (server \<times> bytes list) option" where
  "pipeline_loop spare data 0 offset now s = Some (s, [])"
| "pipeline_loop spare data (Suc n) offset now s =
     (if length data \<le> offset
      then do {
        (s', rs) \<leftarrow> pipeline_loop spare data n offset now s;
        Some (s', createResponse RESP_ERROR ''Incomplete pipeline command'' # rs)
      }
      else do {
        parsed \<leftarrow> parsePipelineMessage spare data offset;
        case parsed of
          ParseError newOffset err \<Rightarrow> do {
            (s', rs) \<leftarrow> pipeline_loop spare data n newOffset now s;
            Some (s', createResponse RESP_ERROR (''Pipeline parse error: '' @ err) # rs)
          }
        | Parsed msg newOffset \<Rightarrow> do {
            (s1, response) \<leftarrow> processIndividualCommand msg now s;
            (s', rs) \<leftarrow> pipeline_loop spare data n newOffset now s1;
            Some (s', response # rs)
          }
      })"

definition handlePipeline :: "bytes \<Rightarrow> bytes \<Rightarrow> int \<Rightarrow> server \<Rightarrow> (server \<times> bytes) option" where
  "handlePipeline spare data now s =
     (if length data < 4 then Some (s, createResponse RESP_ERROR ''Invalid PIPELINE data'')
      else do {
        count \<leftarrow> get_u32 spare data 0;
        if count = 0 then Some (s, createResponse RESP_OK (encodePipelineResponse []))
        else do {
          (s', responses) \<leftarrow> pipeline_loop spare data count 4 now s;
          Some (s', createResponse RESP_OK (encodePipelineResponse responses))
        }
      })"

text \<open>
  \<^verbatim>\<open>processCommand\<close>, with the clock value as its parameter \<open>now\<close>. It is given
  the message without the buffers of its slices, so its PIPELINE case is
  \<^verbatim>\<open>handlePipeline\<close> on a value that has no spare capacity; \<open>handlePipeline\<close>
  itself is stated for every content of the spare capacity.
\<close>

definition processCommand :: "Message \<Rightarrow> int \<Rightarrow> server \<Rightarrow> (server \<times> bytes) option" where
  "processCommand msg now s =
     (let key = Key msg; command = Command msg in
      if command = CMD_SET then Some (cmdSet msg now s)
      else if command = CMD_GET then Some (cmdGet msg now s)
      else if command = CMD_MGET then handleMGet (Value msg) now s
      else if command = CMD_MSET then handleMSet (Value msg) now s
      else if command = CMD_PIPELINE then handlePipeline [] (Value msg) now s
      else if command = CMD_LPUSH then Some (handleListPush key (Value msg) True now s)
      else if command = CMD_RPUSH then Some (handleListPush key (Value msg) False now s)
      else if command = CMD_LPOP then Some (handleListPop key True now s)
      else if command = CMD_RPOP then Some (handleListPop key False now s)
      else if command = CMD_LLEN then Some (handleListLen key now s)
      else if command = CMD_LINDEX then Some (handleListIndex key (int (TTL msg)) now s)
      else if command = CMD_LRANGE then do {
        end \<leftarrow> Uint32 (Value msg);
        Some (handleListRange key (int (TTL msg)) (int end) now s)
      }
      else if command = CMD_SADD then Some (handleSetAdd key (Value msg) now s)
      else if command = CMD_SREM then Some (handleSetRem key (Value msg) now s)
      else if command = CMD_SMEMBERS then Some (handleSetMembers key now s)
      else if command = CMD_SCARD then Some (handleSetCard key now s)
      else if command = CMD_SISMEMBER then Some (handleSetIsMember key (Value msg) now s)
      else if command = CMD_HSET then handleHashSet key (Value msg) now s
      else if command = CMD_HGET then Some (handleHashGet key (Value msg) now s)
      else if command = CMD_HDEL then Some (handleHashDel key (Value msg) now s)
      else if command = CMD_HGETALL then Some (handleHashGetAll key now s)
      else if command = CMD_HLEN then Some (handleHashLen key now s)
      else if command = CMD_HEXISTS then Some (handleHashExists key (Value msg) now s)
      else if command = CMD_DEL then Some (cmdDel msg now s)
      else if command = CMD_EXISTS then Some (cmdExists msg now s)
      else if command = CMD_EXPIRE then Some (cmdExpire msg now s)
      else if command = CMD_TTL then Some (cmdTTL msg now s)
      else if command = CMD_INCR then Some (handleIncr key now s)
      else if command = CMD_DECR then Some (handleDecr key now s)
      else if command = CMD_GETSET then Some (handleGetSet key (Value msg) now s)
      else if command = CMD_KEYS then Some (handleKeys (Value msg) now s)
      else if command = CMD_SCAN then Some (handleScan (TTL msg) (Value msg) 10 now s)
      else Some (s, createResponse RESP_ERROR ''Unknown command''))"

section \<open>The frame reader (readMessage)\<close>

text \<open>
  The connection is the list of the bytes that are still to arrive; a read
  returns the rest of it. \<open>ReadFull r n\<close> is \<^verbatim>\<open>io.ReadFull\<close> into a buffer of
  \<open>n\<close> bytes where the source drops the error. When the input ends before, the
  source goes on with a buffer whose tail is what the pooled buffer held
  before; the embedding does not hold those bytes and the result is \<open>None\<close>.
  The three reads of the header return their error.
\<close>

definition ReadFull :: "bytes \<Rightarrow> nat \<Rightarrow> (bytes \<times> bytes) option" where
  "ReadFull r n = (if n \<le> length r then Some (take n r, drop n r) else None)"

definition read_u32 :: "bytes \<Rightarrow> (nat \<times> bytes) option" where
  "read_u32 r = do { (b, r) \<leftarrow> ReadFull r 4; n \<leftarrow> Uint32 b; Some (n, r) }"

definition read_block :: "bytes \<Rightarrow> (bytes \<times> bytes) option" where
  "read_block r = do { (n, r) \<leftarrow> read_u32 r; ReadFull r n }"

text \<open>
  The \<^verbatim>\<open>switch\<close> of \<^verbatim>\<open>readMessage\<close> on the command, after the header and the
  version test: the error (\<open>Inl\<close>) or the message (\<open>Inr\<close>), with the rest of the
  connection.
\<close>

definition read_payload :: "bytes \<Rightarrow> Message \<Rightarrow> int \<Rightarrow> ((string + Message) \<times> bytes) option" where
  "read_payload r msg remaining =
     (let command = Command msg in
      if command = CMD_SET then
        if remaining < 12 then Some (Inl ''invalid SET message length'', r)
        else do {
          (key, r) \<leftarrow> read_block r;
          (ttl, r) \<leftarrow> read_u32 r;
          (v, r) \<leftarrow> read_block r;
          Some (Inr (msg\<lparr>Key := key, Value := v, TTL := ttl\<rparr>), r)
        }
      else if command \<in> {CMD_GET, CMD_DEL, CMD_EXISTS, CMD_TTL, CMD_LLEN, CMD_SMEMBERS,
                          CMD_SCARD, CMD_HGETALL, CMD_HLEN} then
        if remaining < 4 then Some (Inl ''invalid message length'', r)
        else do { (key, r) \<leftarrow> read_block r; Some (Inr (msg\<lparr>Key := key\<rparr>), r) }
      else if command = CMD_EXPIRE then
        if remaining < 8 then Some (Inl ''invalid EXPIRE message length'', r)
        else do {
          (key, r) \<leftarrow> read_block r;
          (ttl, r) \<leftarrow> read_u32 r;
          Some (Inr (msg\<lparr>Key := key, TTL := ttl\<rparr>), r)
        }
      else if command \<in> {CMD_LPUSH, CMD_RPUSH, CMD_SADD} then
        if remaining < 8 then Some (Inl ''invalid list/set operation message length'', r)
        else do {
          (key, r) \<leftarrow> read_block r;
          (v, r) \<leftarrow> read_block r;
          Some (Inr (msg\<lparr>Key := key, Value := v\<rparr>), r)
        }
      else if command \<in> {CMD_LPOP, CMD_RPOP, CMD_SREM, CMD_SISMEMBER} then do {
          (key, r) \<leftarrow> read_block r;
          let remainingAfterKey = remaining - 4 - int (length key);
          if 0 < remainingAfterKey \<and> (command = CMD_SREM \<or> command = CMD_SISMEMBER)
          then do { (v, r) \<leftarrow> read_block r; Some (Inr (msg\<lparr>Key := key, Value := v\<rparr>), r) }
          else Some (Inr (msg\<lparr>Key := key\<rparr>), r)
        }
      else if command = CMD_LINDEX then
        if remaining < 8 then Some (Inl ''invalid LINDEX message length'', r)
        else do {
          (key, r) \<leftarrow> read_block r;
          (index, r) \<leftarrow> read_u32 r;
          Some (Inr (msg\<lparr>Key := key, TTL := index\<rparr>), r)
        }
      else if command = CMD_LRANGE then
        if remaining < 12 then Some (Inl ''invalid LRANGE message length'', r)
        else do {
          (key, r) \<leftarrow> read_block r;
          (start, r) \<leftarrow> read_u32 r;
          (endBytes, r) \<leftarrow> ReadFull r 4;
          Some (Inr (msg\<lparr>Key := key, Value := endBytes, TTL := start\<rparr>), r)
        }
      else if command \<in> {CMD_HSET, CMD_HGET, CMD_HDEL, CMD_HEXISTS} then
        if remaining < 8 then Some (Inl ''invalid hash operation message length'', r)
        else do {
          (key, r) \<leftarrow> read_block r;
          (fieldLen, r) \<leftarrow> read_u32 r;
          (fieldBytes, r) \<leftarrow> ReadFull r fieldLen;
          let remainingAfterField = remaining - 8 - int (length key) - int fieldLen;
          if 0 < remainingAfterField \<and> command = CMD_HSET
          then do {
            (valueLen, r) \<leftarrow> read_u32 r;
            let buf = PutUint32 fieldLen @ fieldBytes @ replicate valueLen (CHR 0x00);
            let pos = (4 + fieldLen) mod 4294967296;
            (rest, r) \<leftarrow> ReadFull r (length buf - pos);
            Some (Inr (msg\<lparr>Key := key, Value := take pos buf @ rest\<rparr>), r)
          }
          else Some (Inr (msg\<lparr>Key := key, Value := fieldBytes\<rparr>), r)
        }
      else if command \<in> {CMD_MGET, CMD_MSET, CMD_PIPELINE} then
        if remaining < 4
        then Some (Inl (if command = CMD_MGET then ''invalid MGET message length''
                        else if command = CMD_MSET then ''invalid MSET message length''
                        else ''invalid PIPELINE message length''), r)
        else do { (v, r) \<leftarrow> ReadFull r (nat remaining); Some (Inr (msg\<lparr>Value := v\<rparr>), r) }
      else if command \<in> {CMD_INCR, CMD_DECR} then
        if remaining < 4 then Some (Inl ''invalid INCR/DECR message length'', r)
        else do { (key, r) \<leftarrow> read_block r; Some (Inr (msg\<lparr>Key := key\<rparr>), r) }
      else if command = CMD_GETSET then
        if remaining < 8 then Some (Inl ''invalid GETSET message length'', r)
        else do {
          (key, r) \<leftarrow> read_block r;
          (v, r) \<leftarrow> read_block r;
          Some (Inr (msg\<lparr>Key := key, Value := v\<rparr>), r)
        }
      else if command = CMD_KEYS then
        if remaining < 4 then Some (Inl ''invalid KEYS message length'', r)
        else do { (pattern, r) \<leftarrow> read_block r; Some (Inr (msg\<lparr>Value := pattern\<rparr>), r) }
      else if command = CMD_SCAN then
        if remaining < 8 then Some (Inl ''invalid SCAN message length'', r)
        else do {
          (cursor, r) \<leftarrow> read_u32 r;
          (pattern, r) \<leftarrow> read_block r;
          Some (Inr (msg\<lparr>Value := pattern, TTL := cursor\<rparr>), r)
        }
      else Some (Inr msg, r))"

definition readMessage :: "bytes \<Rightarrow> ((string + Message) \<times> bytes) option" where
  "readMessage r =
     (if length r < 4 then Some (Inl ''EOF'', [])
      else do {
        (frameLen, r) \<leftarrow> read_u32 r;
        if length r < 1 then Some (Inl ''EOF'', [])
        else do {
          let version = of_char (hd r);
          let r = tl r;
          if length r < 1 then Some (Inl ''EOF'', [])
          else do {
            let command = of_char (hd r);
            let r = tl r;
            let msg = \<lparr>Length = frameLen, Version = version, Command = command,
                       Key = [], Value = [], TTL = 0\<rparr>;
            if version \<noteq> PROTOCOL_VERSION then Some (Inl ''unsupported protocol version'', r)
            else read_payload r msg (int frameLen - 2)
          }
        }
      })"

section \<open>Vocabulary of the properties\<close>

text \<open>
  The type a command tests the item of its key for, read off the handlers:
  \<open>None\<close> for the commands that do not look at the type (SET, DEL, EXISTS,
  EXPIRE, TTL) or have no key.
\<close>

definition required_type :: "nat \<Rightarrow> DataType option" where
  "required_type command =
     (if command \<in> {CMD_GET, CMD_INCR, CMD_DECR, CMD_GETSET} then Some TYPE_STRING
      else if command \<in> {CMD_LPUSH, CMD_RPUSH, CMD_LPOP, CMD_RPOP, CMD_LLEN, CMD_LINDEX,
                          CMD_LRANGE} then Some TYPE_LIST
      else if command \<in> {CMD_SADD, CMD_SREM, CMD_SMEMBERS, CMD_SCARD, CMD_SISMEMBER}
      then Some TYPE_SET
      else if command \<in> {CMD_HSET, CMD_HGET, CMD_HDEL, CMD_HGETALL, CMD_HLEN, CMD_HEXISTS}
      then Some TYPE_HASH
      else None)"

text \<open>
  The packed value of HSET passes the two length tests of \<^verbatim>\<open>handleHashSet\<close>
  and its slice expressions.
\<close>

definition hset_data_ok :: "bytes \<Rightarrow> bool" where
  "hset_data_ok data =
     (case Uint32 data of
        None \<Rightarrow> False
      | Some fieldLen \<Rightarrow>
          4 \<le> (4 + fieldLen) mod 4294967296 \<and> (4 + fieldLen) mod 4294967296 \<le> length data)"

text \<open>
  The deadline and the creation time of the item of a key and the entry of the
  key in the TTL index are the same in \<open>s\<close> and \<open>s'\<close>.
\<close>

definition keeps_frame :: "string \<Rightarrow> server \<Rightarrow> server \<Rightarrow> bool" where
  "keeps_frame key s s' \<longleftrightarrow>
     map_option ExpiresAt (fmlookup (storage s') key)
       = map_option ExpiresAt (fmlookup (storage s) key) \<and>
     map_option CreatedAt (fmlookup (storage s') key)
       = map_option CreatedAt (fmlookup (storage s) key) \<and>
     fmlookup (ttlIndex s') key = fmlookup (ttlIndex s) key"

text \<open>
  The payloads of MGET and MSET as the wire grammar writes them:
  \<open>count (keylen key)*\<close> and \<open>count (keylen key valuelen value ttl)*\<close>.
\<close>

definition mget_payload :: "string list \<Rightarrow> bytes" where
  "mget_payload ks =
     PutUint32 (length ks) @ concat (map (\<lambda>k. PutUint32 (length k) @ k) ks)"

definition mset_payload :: "(string \<times> bytes \<times> nat) list \<Rightarrow> bytes" where
  "mset_payload ps =
     PutUint32 (length ps) @
     concat (map (\<lambda>(k, v, ttl). PutUint32 (length k) @ k @ PutUint32 (length v) @ v @ PutUint32 ttl)
                 ps)"

text \<open>
  What MGET reports for one key in a state: the bytes of a live STRING, and
  \<^verbatim>\<open>nil\<close> for a key that is missing, expired or of another type.
\<close>

definition mget_value :: "server \<Rightarrow> int \<Rightarrow> string \<Rightarrow> bytes option" where
  "mget_value s now key =
     (case fmlookup (storage s) key of
        None \<Rightarrow> None
      | Some item \<Rightarrow>
          if expired item now then None
          else (case Data item of VString v \<Rightarrow> Some v | _ \<Rightarrow> None))"

text \<open>
  The item that one pair of MSET stores, and the state after the pair: the
  body of the loop of \<^verbatim>\<open>handleMSet\<close> past its parsing.
\<close>

definition mset_item :: "int \<Rightarrow> bytes \<Rightarrow> nat \<Rightarrow> CacheItem" where
  "mset_item now v ttl =
     \<lparr>Data = VString v, ExpiresAt = (if 0 < ttl then wrap64 (now + int ttl) else 0),
      CreatedAt = now\<rparr>"

definition set_pair :: "int \<Rightarrow> server \<Rightarrow> string \<times> bytes \<times> nat \<Rightarrow> server" where
  "set_pair now s p =
     (case p of (k, v, ttl) \<Rightarrow>
        (if 0 < ttl then s\<lparr>ttlIndex := fmupd k (wrap64 (now + int ttl)) (ttlIndex s)\<rparr> else s)
          \<lparr>storage := fmupd k (mset_item now v ttl) (storage s)\<rparr>)"

chapter \<open>Properties\<close>

section \<open>Auxiliary facts\<close>

lemma createResponse_inj [simp]:
  "createResponse st d = createResponse st' d' \<longleftrightarrow> st = st' \<and> d = d'"
  by (auto simp add: createResponse_def PutUint32_def)

lemma sorted_list_of_fset_of_list: "sorted_list_of_fset (fset_of_list xs) = sort (remdups xs)"
  by (simp add: sorted_list_of_fset.rep_eq fset_of_list.rep_eq sorted_list_of_set_sort_remdups)

lemma sorted_list_of_fset_single: "sorted_list_of_fset {|x|} = [x]"
  using sorted_list_of_fset_of_list [of "[x]"] by simp

lemma be32_value:
  "((n div 16777216 mod 256 * 256 + n div 65536 mod 256) * 256 + n div 256 mod 256) * 256
     + n mod 256 = (n::nat) mod 4294967296"
proof -
  have d2: "n div 65536 = n div 256 div 256" and d3: "n div 16777216 = n div 256 div 256 div 256"
    by (simp_all add: div_mult2_eq)
  have 1: "n mod 4294967296 = 256 * (n div 256 mod 16777216) + n mod 256"
    using mod_mult2_eq [of n 256 16777216] by simp
  have 2: "n div 256 mod 16777216 = 256 * (n div 256 div 256 mod 65536) + n div 256 mod 256"
    using mod_mult2_eq [of "n div 256" 256 65536] by simp
  have 3: "n div 256 div 256 mod 65536
             = 256 * (n div 256 div 256 div 256 mod 256) + n div 256 div 256 mod 256"
    using mod_mult2_eq [of "n div 256 div 256" 256 256] by simp
  show ?thesis
    unfolding d2 d3 1 2 3 by simp
qed

lemma Uint32_PutUint32: "Uint32 (PutUint32 n @ rest) = Some (n mod 4294967296)"
  using be32_value [of n] by (simp add: PutUint32_def of_char_of)


lemma length_PutUint32 [simp]: "length (PutUint32 n) = 4"
  by (simp add: PutUint32_def)

lemma evict_mutate: "evict key (mutate key d s) = evict key s"
  by (simp add: evict_def mutate_def fmdrop_fmupd_same split: option.splits)

lemma lookup_evict [simp]:
  "fmlookup (storage (evict key s)) key = None" "fmlookup (ttlIndex (evict key s)) key = None"
  by (simp_all add: evict_def)

lemma Uint32_PutUint32_small: "n < 4294967296 \<Longrightarrow> Uint32 (PutUint32 n @ rest) = Some n"
  by (simp add: Uint32_PutUint32)

lemma slice_prefix: "slice (xs @ ys) 0 (length xs) = Some xs"
  by (simp add: slice_def)

lemma slice_middle: "slice (xs @ ys @ zs) (length xs) (length xs + length ys) = Some ys"
  by (simp add: slice_def)

lemma slice_suffix: "slice (xs @ ys) (length xs) (length xs + length ys) = Some ys"
  by (simp add: slice_def)

section \<open>Lazy expiration\<close>

text \<open>
  Claim C2. Every command that observes a key evicts it first when it has
  expired and then treats it as absent; EXPIRE on an expired key replies
  \<open>0\<close>.

  The source of EXPIRE has no expiration test. At time 200 the key \<open>k\<close> that
  expired at 100 is given the new deadline 250 and the reply is \<open>1\<close>: the
  key is live again. GET of the same key in the same state evicts it and
  replies NOT_FOUND, and DEL, which has no test either, replies \<open>1\<close>.
\<close>

theorem expire_revives_expired_key:
  "processCommand
     \<lparr>Length = 11, Version = 1, Command = CMD_EXPIRE, Key = ''k'', Value = [], TTL = 50\<rparr> 200
     \<lparr>storage = fmupd ''k'' \<lparr>Data = VString ''v'', ExpiresAt = 100, CreatedAt = 90\<rparr> fmempty,
      ttlIndex = fmupd ''k'' 100 fmempty\<rparr>
   = Some (\<lparr>storage = fmupd ''k'' \<lparr>Data = VString ''v'', ExpiresAt = 250, CreatedAt = 90\<rparr> fmempty,
            ttlIndex = fmupd ''k'' 250 fmempty\<rparr>,
           createResponse RESP_OK ''1'') \<and>
   processCommand
     \<lparr>Length = 7, Version = 1, Command = CMD_GET, Key = ''k'', Value = [], TTL = 0\<rparr> 200
     \<lparr>storage = fmupd ''k'' \<lparr>Data = VString ''v'', ExpiresAt = 100, CreatedAt = 90\<rparr> fmempty,
      ttlIndex = fmupd ''k'' 100 fmempty\<rparr>
   = Some (\<lparr>storage = fmempty, ttlIndex = fmempty\<rparr>, createResponse RESP_NOT_FOUND []) \<and>
   processCommand
     \<lparr>Length = 7, Version = 1, Command = CMD_DEL, Key = ''k'', Value = [], TTL = 0\<rparr> 200
     \<lparr>storage = fmupd ''k'' \<lparr>Data = VString ''v'', ExpiresAt = 100, CreatedAt = 90\<rparr> fmempty,
      ttlIndex = fmupd ''k'' 100 fmempty\<rparr>
   = Some (\<lparr>storage = fmempty, ttlIndex = fmempty\<rparr>, createResponse RESP_OK ''1'')"
  by (simp add: processCommand_def cmdExpire_def cmdGet_def cmdDel_def expired_def evict_def
        wrap64_def Let_def fmdrop_fmupd_same)

section \<open>The TTL index\<close>

text \<open>
  Claim C3. In every reachable state a key with \<open>expires_at > 0\<close> has a
  TTL-index entry with the same deadline and the index has no entry that
  disagrees with the keyspace, also after SET or MSET overwrites with
  TTL 0 a key that had a deadline.

  From the empty server, SET \<open>k\<close> with TTL 10 at time 100 and then SET \<open>k\<close>
  with TTL 0 at time 101: the item has \<open>ExpiresAt = 0\<close> and the index still
  holds \<open>k\<close> with the deadline 110. The sweeper, which reads the index only,
  then deletes the key that has no deadline.
\<close>

theorem set_keeps_stale_ttl_entry:
  "processCommand
     \<lparr>Length = 16, Version = 1, Command = CMD_SET, Key = ''k'', Value = ''v'', TTL = 10\<rparr> 100
     NewGoFastServer
   = Some (\<lparr>storage = fmupd ''k'' \<lparr>Data = VString ''v'', ExpiresAt = 110, CreatedAt = 100\<rparr> fmempty,
            ttlIndex = fmupd ''k'' 110 fmempty\<rparr>,
           createResponse RESP_OK []) \<and>
   processCommand
     \<lparr>Length = 16, Version = 1, Command = CMD_SET, Key = ''k'', Value = ''w'', TTL = 0\<rparr> 101
     \<lparr>storage = fmupd ''k'' \<lparr>Data = VString ''v'', ExpiresAt = 110, CreatedAt = 100\<rparr> fmempty,
      ttlIndex = fmupd ''k'' 110 fmempty\<rparr>
   = Some (\<lparr>storage = fmupd ''k'' \<lparr>Data = VString ''w'', ExpiresAt = 0, CreatedAt = 101\<rparr> fmempty,
            ttlIndex = fmupd ''k'' 110 fmempty\<rparr>,
           createResponse RESP_OK []) \<and>
   cleanupExpiredKeys 200
     \<lparr>storage = fmupd ''k'' \<lparr>Data = VString ''w'', ExpiresAt = 0, CreatedAt = 101\<rparr> fmempty,
      ttlIndex = fmupd ''k'' 110 fmempty\<rparr>
   = \<lparr>storage = fmempty, ttlIndex = fmempty\<rparr>"
  by (simp add: processCommand_def cmdSet_def NewGoFastServer_def wrap64_def Let_def
        cleanupExpiredKeys_def evict_all_def evict_def sorted_list_of_fset_single
        fmdrop_fmupd_same)

section \<open>INCR and DECR\<close>

text \<open>
  Claim C10. INCR and DECR wrap around at the signed 64-bit boundary instead
  of raising an error: on a live STRING key whose bytes parse as the signed
  64-bit decimal \<open>n\<close> the reply is OK with the decimal text of \<open>n + 1\<close>
  (\<open>n - 1\<close>) reduced to 64 bits, so INCR of \<open>9223372036854775807\<close> replies
  \<open>-9223372036854775808\<close> and DECR of \<open>-9223372036854775808\<close> replies
  \<open>9223372036854775807\<close>. The error \<open>ERR value is not an integer or out of
  range\<close> is the reply exactly when the stored bytes do not parse.
\<close>

theorem incr_decr_wrap:
  assumes "fmlookup (storage s) key = Some item" and "\<not> expired item now"
    and "Data item = VString v"
  shows "(case ParseInt v of
            Some n \<Rightarrow>
              snd (handleIncr key now s) = createResponse RESP_OK (FormatInt (wrap64 (n + 1))) \<and>
              snd (handleDecr key now s) = createResponse RESP_OK (FormatInt (wrap64 (n - 1)))
          | None \<Rightarrow>
              snd (handleIncr key now s) = createResponse RESP_ERROR NOT_INTEGER \<and>
              snd (handleDecr key now s) = createResponse RESP_ERROR NOT_INTEGER) \<and>
         (snd (handleIncr key now s) = createResponse RESP_ERROR NOT_INTEGER
            \<longleftrightarrow> ParseInt v = None) \<and>
         (snd (handleDecr key now s) = createResponse RESP_ERROR NOT_INTEGER
            \<longleftrightarrow> ParseInt v = None)"
  using assms
  by (cases "ParseInt v")
     (simp_all add: handleIncr_def handleDecr_def incr_by_def Let_def)

theorem incr_decr_wrap_witness:
  "snd (handleIncr ''n'' 0
          \<lparr>storage = fmupd ''n'' \<lparr>Data = VString ''9223372036854775807'', ExpiresAt = 0,
                                 CreatedAt = 0\<rparr> fmempty,
            ttlIndex = fmempty\<rparr>)
     = createResponse RESP_OK ''-9223372036854775808'' \<and>
   snd (handleDecr ''n'' 0
          \<lparr>storage = fmupd ''n'' \<lparr>Data = VString ''-9223372036854775808'', ExpiresAt = 0,
                                 CreatedAt = 0\<rparr> fmempty,
            ttlIndex = fmempty\<rparr>)
     = createResponse RESP_OK ''9223372036854775807''"
  using
    incr_decr_wrap [of "\<lparr>storage = fmupd ''n'' \<lparr>Data = VString ''9223372036854775807'',
        ExpiresAt = 0, CreatedAt = 0\<rparr> fmempty, ttlIndex = fmempty\<rparr>"
      "''n''" _ 0 "''9223372036854775807''"]
    incr_decr_wrap [of "\<lparr>storage = fmupd ''n'' \<lparr>Data = VString ''-9223372036854775808'',
        ExpiresAt = 0, CreatedAt = 0\<rparr> fmempty, ttlIndex = fmempty\<rparr>"
      "''n''" _ 0 "''-9223372036854775808''"]
  by (simp add: expired_def ParseInt_def wrap64_def FormatInt_def digits.simps char_of_def
        bit_iff_odd)

section \<open>Type errors\<close>

lemma Uint32_take4: "4 \<le> length data \<Longrightarrow> Uint32 (take 4 data) = Uint32 data"
  by (cases data rule: Uint32.cases) simp_all

lemma Uint32_Some_length: "Uint32 data = Some n \<Longrightarrow> 4 \<le> length data"
  by (cases data rule: Uint32.cases) simp_all


lemma wt_string:
  assumes live: "fmlookup (storage s) key = Some item" "\<not> expired item now"
    and "DataType_of item \<noteq> TYPE_STRING"
  shows "cmdGet (msg\<lparr>Key := key\<rparr>) now s = (s, createResponse RESP_ERROR WRONGTYPE)"
    "handleIncr key now s = (s, createResponse RESP_ERROR WRONGTYPE)"
    "handleDecr key now s = (s, createResponse RESP_ERROR WRONGTYPE)"
    "handleGetSet key v now s = (s, createResponse RESP_ERROR WRONGTYPE)"
  using assms
  by (cases "Data item";
      simp add: cmdGet_def handleIncr_def handleDecr_def incr_by_def handleGetSet_def
        DataType_of_def Let_def)+

lemma wt_list:
  assumes live: "fmlookup (storage s) key = Some item" "\<not> expired item now"
    and "DataType_of item \<noteq> TYPE_LIST"
  shows "handleListPush key v isLeft now s = (s, createResponse RESP_ERROR WRONGTYPE)"
    "handleListPop key isLeft now s = (s, createResponse RESP_ERROR WRONGTYPE)"
    "handleListLen key now s = (s, createResponse RESP_ERROR WRONGTYPE)"
    "handleListIndex key i now s = (s, createResponse RESP_ERROR WRONGTYPE)"
    "handleListRange key a b now s = (s, createResponse RESP_ERROR WRONGTYPE)"
  using assms
  by (cases "Data item";
      simp add: handleListPush_def handleListPop_def handleListLen_def handleListIndex_def
        handleListRange_def DataType_of_def Let_def)+

lemma wt_set:
  assumes live: "fmlookup (storage s) key = Some item" "\<not> expired item now"
    and "DataType_of item \<noteq> TYPE_SET"
  shows "handleSetAdd key v now s = (s, createResponse RESP_ERROR WRONGTYPE)"
    "handleSetRem key v now s = (s, createResponse RESP_ERROR WRONGTYPE)"
    "handleSetMembers key now s = (s, createResponse RESP_ERROR WRONGTYPE)"
    "handleSetCard key now s = (s, createResponse RESP_ERROR WRONGTYPE)"
    "handleSetIsMember key v now s = (s, createResponse RESP_ERROR WRONGTYPE)"
  using assms
  by (cases "Data item";
      simp add: handleSetAdd_def handleSetRem_def handleSetMembers_def handleSetCard_def
        handleSetIsMember_def DataType_of_def Let_def)+

lemma wt_hash:
  assumes live: "fmlookup (storage s) key = Some item" "\<not> expired item now"
    and "DataType_of item \<noteq> TYPE_HASH"
  shows "handleHashGet key v now s = (s, createResponse RESP_ERROR WRONGTYPE)"
    "handleHashDel key v now s = (s, createResponse RESP_ERROR WRONGTYPE)"
    "handleHashGetAll key now s = (s, createResponse RESP_ERROR WRONGTYPE)"
    "handleHashLen key now s = (s, createResponse RESP_ERROR WRONGTYPE)"
    "handleHashExists key v now s = (s, createResponse RESP_ERROR WRONGTYPE)"
  using assms
  by (cases "Data item";
      simp add: handleHashGet_def handleHashDel_def handleHashGetAll_def handleHashLen_def
        handleHashExists_def DataType_of_def Let_def)+

lemma wt_hset:
  assumes live: "fmlookup (storage s) key = Some item" "\<not> expired item now"
    and "DataType_of item \<noteq> TYPE_HASH" and "hset_data_ok data"
  shows "handleHashSet key data now s = Some (s, createResponse RESP_ERROR WRONGTYPE)"
proof -
  from assms(4) obtain fieldLen where
    f: "Uint32 data = Some fieldLen" "4 \<le> (4 + fieldLen) mod 4294967296"
       "(4 + fieldLen) mod 4294967296 \<le> length data"
    by (auto simp: hset_data_ok_def split: option.splits)
  have len: "4 \<le> length data" using f(1) by (rule Uint32_Some_length)
  show ?thesis
    using assms(1-3) f len
    by (cases "Data item";
        simp add: handleHashSet_def slice_def Uint32_take4 DataType_of_def Let_def)
qed

text \<open>
  Claim C1, as amended. For a live key and a command that tests the type
  (GET, INCR, DECR, GETSET for STRING; LPUSH, RPUSH, LPOP, RPOP, LLEN, LINDEX,
  LRANGE for LIST; SADD, SREM, SMEMBERS, SCARD, SISMEMBER for SET; HSET, HGET,
  HDEL, HGETALL, HLEN, HEXISTS for HASH), when the item holds another type the
  response has status ERROR, its data begins with \<open>WRONGTYPE\<close>, and the
  keyspace and the TTL index are unchanged. LRANGE is taken with its four
  \<^verbatim>\<open>end\<close> bytes and HSET with a packed value that passes its length tests,
  both of which are examined before the key is looked up.
\<close>

theorem wrongtype_error:
  assumes "fmlookup (storage s) (Key msg) = Some item" and "\<not> expired item now"
    and "required_type (Command msg) = Some t" and "DataType_of item \<noteq> t"
    and "Command msg = CMD_LRANGE \<longrightarrow> 4 \<le> length (Value msg)"
    and "Command msg = CMD_HSET \<longrightarrow> hset_data_ok (Value msg)"
  shows "processCommand msg now s = Some (s, createResponse RESP_ERROR WRONGTYPE) \<and>
         processIndividualCommand msg now s = Some (s, createResponse RESP_ERROR WRONGTYPE) \<and>
         hd (createResponse RESP_ERROR WRONGTYPE) = RESP_ERROR \<and>
         take 9 (drop 5 (createResponse RESP_ERROR WRONGTYPE)) = ''WRONGTYPE''"
proof -
  have resp: "hd (createResponse RESP_ERROR WRONGTYPE) = RESP_ERROR \<and>
         take 9 (drop 5 (createResponse RESP_ERROR WRONGTYPE)) = ''WRONGTYPE''"
    by (simp add: createResponse_def PutUint32_def WRONGTYPE_def)
  have key: "msg\<lparr>Key := Key msg\<rparr> = msg" by simp
  note wt = wt_string [OF assms(1,2)] wt_list [OF assms(1,2)] wt_set [OF assms(1,2)]
    wt_hash [OF assms(1,2)] wt_hset [OF assms(1,2)]
  have lr: "Command msg = CMD_LRANGE \<Longrightarrow> \<exists>e. Uint32 (Value msg) = Some e"
    using assms(5) by (cases "Value msg" rule: Uint32.cases) simp_all
  consider (str) "Command msg \<in> {CMD_GET, CMD_INCR, CMD_DECR, CMD_GETSET}" "t = TYPE_STRING"
    | (lst) "Command msg \<in> {CMD_LPUSH, CMD_RPUSH, CMD_LPOP, CMD_RPOP, CMD_LLEN, CMD_LINDEX,
                          CMD_LRANGE}" "t = TYPE_LIST"
    | (set) "Command msg \<in> {CMD_SADD, CMD_SREM, CMD_SMEMBERS, CMD_SCARD, CMD_SISMEMBER}" "t = TYPE_SET"
    | (hsh) "Command msg \<in> {CMD_HSET, CMD_HGET, CMD_HDEL, CMD_HGETALL, CMD_HLEN, CMD_HEXISTS}" "t = TYPE_HASH"
    using assms(3) unfolding required_type_def by (auto split: if_splits)
  then have "processCommand msg now s = Some (s, createResponse RESP_ERROR WRONGTYPE) \<and>
         processIndividualCommand msg now s = Some (s, createResponse RESP_ERROR WRONGTYPE)"
  proof cases
    case str
    then show ?thesis
      using assms(4) wt(1) [of msg] wt(2-4) key
      by (auto simp add: processCommand_def processIndividualCommand_def)
  next
    case lst
    then show ?thesis
      using assms(4) wt(5-9) lr
      by (auto simp add: processCommand_def processIndividualCommand_def)
  next
    case set
    then show ?thesis
      using assms(4) wt(10-14)
      by (auto simp add: processCommand_def processIndividualCommand_def)
  next
    case hsh
    then show ?thesis
      using assms(4,6) wt(15-20)
      by (auto simp add: processCommand_def processIndividualCommand_def)
  qed
  with resp show ?thesis by simp
qed


theorem wrongtype_error_witness:
  "processCommand
     \<lparr>Length = 13, Version = 1, Command = CMD_LPUSH, Key = ''k'', Value = ''x'', TTL = 0\<rparr> 100
     \<lparr>storage = fmupd ''k'' \<lparr>Data = VString ''v'', ExpiresAt = 0, CreatedAt = 90\<rparr> fmempty,
      ttlIndex = fmempty\<rparr>
   = Some (\<lparr>storage = fmupd ''k'' \<lparr>Data = VString ''v'', ExpiresAt = 0, CreatedAt = 90\<rparr> fmempty,
            ttlIndex = fmempty\<rparr>,
           createResponse RESP_ERROR WRONGTYPE)"
  using wrongtype_error [of
      "\<lparr>storage = fmupd ''k'' \<lparr>Data = VString ''v'', ExpiresAt = 0, CreatedAt = 90\<rparr> fmempty,
        ttlIndex = fmempty\<rparr>"
      "\<lparr>Length = 13, Version = 1, Command = CMD_LPUSH, Key = ''k'', Value = ''x'', TTL = 0\<rparr>"
      "\<lparr>Data = VString ''v'', ExpiresAt = 0, CreatedAt = 90\<rparr>" 100 TYPE_LIST]
  by (simp add: expired_def required_type_def DataType_of_def)

text \<open>
  SET does not test the type: on a key that holds a LIST it replies OK and the
  list is replaced by the string.
\<close>

theorem set_overwrites_list_counterexample:
  "processCommand
     \<lparr>Length = 16, Version = 1, Command = CMD_SET, Key = ''k'', Value = ''v'', TTL = 0\<rparr> 100
     \<lparr>storage = fmupd ''k'' \<lparr>Data = VList [''x''], ExpiresAt = 0, CreatedAt = 90\<rparr> fmempty,
      ttlIndex = fmempty\<rparr>
   = Some (\<lparr>storage = fmupd ''k'' \<lparr>Data = VString ''v'', ExpiresAt = 0, CreatedAt = 100\<rparr> fmempty,
            ttlIndex = fmempty\<rparr>,
           createResponse RESP_OK []) \<and>
   hd (createResponse RESP_OK []) \<noteq> RESP_ERROR"
  by (simp add: processCommand_def cmdSet_def Let_def createResponse_def)

section \<open>Emptied containers\<close>

lemma pop_last:
  assumes "fmlookup (storage s) key = Some item" and "\<not> expired item now"
    and "Data item = VList [v]"
  shows "handleListPop key isLeft now s = (evict key s, createResponse RESP_OK v)"
  using assms by (simp add: handleListPop_def RightPop_def evict_mutate Let_def)

lemma srem_last:
  assumes "fmlookup (storage s) key = Some item" and "\<not> expired item now"
    and "Data item = VSet m" and "fst (Remove m member) = {||}"
  shows "fst (handleSetRem key member now s) = evict key s"
  using assms
  by (cases "Remove m member") (simp add: handleSetRem_def evict_mutate Card_def Let_def)

lemma hdel_last:
  assumes "fmlookup (storage s) key = Some item" and "\<not> expired item now"
    and "Data item = VHash h" and "fmdom (fst (HDel h field)) = {||}"
  shows "fst (handleHashDel key field now s) = evict key s"
  using assms
  by (cases "HDel h field") (simp add: handleHashDel_def evict_mutate HLen_def Let_def)

lemma absent_after_evict:
  "cmdGet \<lparr>Length = n, Version = 1, Command = CMD_GET, Key = key, Value = [], TTL = 0\<rparr>
       now' (evict key s) = (evict key s, createResponse RESP_NOT_FOUND [])"
  "cmdExists \<lparr>Length = n, Version = 1, Command = CMD_EXISTS, Key = key, Value = [], TTL = 0\<rparr>
       now' (evict key s) = (evict key s, createResponse RESP_OK ''0'')"
  by (simp_all add: cmdGet_def cmdExists_def)

lemma push_pop_absent:
  assumes "fmlookup (storage s) key = None"
  shows "handleListPop key True now' (fst (handleListPush key v True now s))
           = (evict key s, createResponse RESP_OK v)"
  using assms
  by (simp add: handleListPush_def handleListPop_def store_new_def mutate_def LeftPush_def
        expired_def evict_def fmdrop_fmupd_same Let_def)

text \<open>
  Claim C8. For a live key that holds a container, an operation that leaves
  the container empty (LPOP or RPOP of the only element, SREM that leaves no
  member, HDEL that leaves no field) removes the key from the keyspace and
  from the TTL index before it replies, so that a following GET replies
  NOT_FOUND and EXISTS replies \<open>0\<close>; LPUSH of \<open>w\<close> on an absent key followed by
  LPOP returns \<open>w\<close> and leaves the key absent.
\<close>

theorem emptied_container_removed:
  assumes "fmlookup (storage s) key = Some item" and "\<not> expired item now"
  shows "(Data item = VList [v] \<longrightarrow>
            handleListPop key isLeft now s = (evict key s, createResponse RESP_OK v)) \<and>
         (Data item = VSet m \<longrightarrow> fst (Remove m member) = {||} \<longrightarrow>
            fst (handleSetRem key member now s) = evict key s) \<and>
         (Data item = VHash h \<longrightarrow> fmdom (fst (HDel h field)) = {||} \<longrightarrow>
            fst (handleHashDel key field now s) = evict key s) \<and>
         fmlookup (storage (evict key s)) key = None \<and>
         fmlookup (ttlIndex (evict key s)) key = None \<and>
         cmdGet \<lparr>Length = n, Version = 1, Command = CMD_GET, Key = key, Value = [], TTL = 0\<rparr>
             now' (evict key s)
           = (evict key s, createResponse RESP_NOT_FOUND []) \<and>
         cmdExists \<lparr>Length = n, Version = 1, Command = CMD_EXISTS, Key = key, Value = [], TTL = 0\<rparr>
             now' (evict key s)
           = (evict key s, createResponse RESP_OK ''0'') \<and>
         (\<forall>s0 w t t'. fmlookup (storage s0) key = None \<longrightarrow>
            handleListPop key True t' (fst (handleListPush key w True t s0))
              = (evict key s0, createResponse RESP_OK w))"
  using pop_last [OF assms] srem_last [OF assms] hdel_last [OF assms]
    absent_after_evict [of n key now' s] push_pop_absent
  by simp

theorem emptied_container_removed_witness:
  "handleListPop ''k'' True 100
      \<lparr>storage = fmupd ''k'' \<lparr>Data = VList [''v''], ExpiresAt = 500, CreatedAt = 90\<rparr> fmempty,
        ttlIndex = fmupd ''k'' 500 fmempty\<rparr>
     = (\<lparr>storage = fmempty, ttlIndex = fmempty\<rparr>, createResponse RESP_OK ''v'') \<and>
   fst (handleSetRem ''k'' ''m'' 100
      \<lparr>storage = fmupd ''k'' \<lparr>Data = VSet {|''m''|}, ExpiresAt = 500, CreatedAt = 90\<rparr> fmempty,
        ttlIndex = fmupd ''k'' 500 fmempty\<rparr>)
     = \<lparr>storage = fmempty, ttlIndex = fmempty\<rparr> \<and>
   fst (handleHashDel ''k'' ''f'' 100
      \<lparr>storage = fmupd ''k'' \<lparr>Data = VHash (fmupd ''f'' ''x'' fmempty), ExpiresAt = 500,
                             CreatedAt = 90\<rparr> fmempty,
        ttlIndex = fmupd ''k'' 500 fmempty\<rparr>)
     = \<lparr>storage = fmempty, ttlIndex = fmempty\<rparr> \<and>
   handleListPop ''k'' True 101 (fst (handleListPush ''k'' ''v'' True 100 NewGoFastServer))
     = (NewGoFastServer, createResponse RESP_OK ''v'')"
  using
    emptied_container_removed [where
      s = "\<lparr>storage = fmupd ''k'' \<lparr>Data = VList [''v''], ExpiresAt = 500, CreatedAt = 90\<rparr> fmempty,
        ttlIndex = fmupd ''k'' 500 fmempty\<rparr>" and key = "''k''" and now = 100
      and item = "\<lparr>Data = VList [''v''], ExpiresAt = 500, CreatedAt = 90\<rparr>"
      and v = "''v''" and isLeft = True]
    emptied_container_removed [where
      s = "\<lparr>storage = fmupd ''k'' \<lparr>Data = VSet {|''m''|}, ExpiresAt = 500, CreatedAt = 90\<rparr> fmempty,
        ttlIndex = fmupd ''k'' 500 fmempty\<rparr>" and key = "''k''" and now = 100
      and item = "\<lparr>Data = VSet {|''m''|}, ExpiresAt = 500, CreatedAt = 90\<rparr>"
      and m = "{|''m''|}" and member = "''m''"]
    emptied_container_removed [where
      s = "\<lparr>storage = fmupd ''k'' \<lparr>Data = VHash (fmupd ''f'' ''x'' fmempty), ExpiresAt = 500,
        CreatedAt = 90\<rparr> fmempty, ttlIndex = fmupd ''k'' 500 fmempty\<rparr>" and key = "''k''"
      and now = 100
      and item = "\<lparr>Data = VHash (fmupd ''f'' ''x'' fmempty), ExpiresAt = 500, CreatedAt = 90\<rparr>"
      and h = "fmupd ''f'' ''x'' fmempty" and field = "''f''"]
  by (auto simp add: expired_def evict_def fmdrop_fmupd_same Remove_def HDel_def
        NewGoFastServer_def)

section \<open>Container writes keep the expiration\<close>

lemma hset_existing:
  assumes "fmlookup (storage s) key = Some item" and "\<not> expired item now"
    and "Data item = VHash h" and "4 + length field < 4294967296"
  shows "handleHashSet key (PutUint32 (length field) @ field @ w) now s
           = Some (s\<lparr>storage := fmupd key (item\<lparr>Data := VHash (fmupd field w h)\<rparr>) (storage s)\<rparr>,
                   if fmlookup h field = None then createResponse RESP_OK ''1''
                   else createResponse RESP_OK ''0'')"
proof -
  let ?P = "PutUint32 (length field)"
  let ?data = "?P @ field @ w"
  have 1: "slice ?data 0 4 = Some ?P"
    using slice_prefix [of ?P "field @ w"] by simp
  have 2: "Uint32 ?P = Some (length field)"
    using Uint32_PutUint32_small [of "length field" "[]"] assms(4) by simp
  have 3: "(4 + length field) mod 4294967296 = 4 + length field"
    using assms(4) by simp
  have 4: "slice ?data 4 (4 + length field) = Some field"
    using slice_middle [of ?P field w] by simp
  have 5: "slice ?data (4 + length field) (length ?data) = Some w"
    by (simp add: slice_def)
  have 6: "\<not> length ?data < 4" by simp
  have 7: "\<not> length ?data < 4 + length field" by simp
  show ?thesis
    unfolding handleHashSet_def
    apply (simp only: 6 if_False 1 2 3 4 5 7 bind.bind_lunit Let_def)
    using assms(1-3)
    by (simp add: mutate_def HSet_def)
qed

text \<open>
  Claim C9. On a live key of the matching container type, LPUSH, RPUSH, SADD
  and HSET change the contents of the container only: the new state is the old
  one with the new contents in the item of the key, so the \<open>ExpiresAt\<close> and
  \<open>CreatedAt\<close> of the item and the entry of the key in the TTL index are
  unchanged. HSET is taken with the packed value \<open>fieldlen field value\<close>
  that the two parsers build.
\<close>

theorem container_write_frame:
  assumes "fmlookup (storage s) key = Some item" and "\<not> expired item now"
  shows "(Data item = VList l \<longrightarrow>
            fst (handleListPush key v isLeft now s)
              = s\<lparr>storage := fmupd key (item\<lparr>Data := VList (if isLeft then v # l else l @ [v])\<rparr>)
                             (storage s)\<rparr> \<and>
            keeps_frame key s (fst (handleListPush key v isLeft now s))) \<and>
         (Data item = VSet m \<longrightarrow>
            fst (handleSetAdd key member now s)
              = s\<lparr>storage := fmupd key (item\<lparr>Data := VSet (finsert member m)\<rparr>) (storage s)\<rparr> \<and>
            keeps_frame key s (fst (handleSetAdd key member now s))) \<and>
         (Data item = VHash h \<longrightarrow> 4 + length field < 4294967296 \<longrightarrow>
            (\<exists>s' resp.
               handleHashSet key (PutUint32 (length field) @ field @ w) now s = Some (s', resp) \<and>
               s' = s\<lparr>storage := fmupd key (item\<lparr>Data := VHash (fmupd field w h)\<rparr>) (storage s)\<rparr> \<and>
               keeps_frame key s s'))"
  using assms hset_existing [OF assms, of h field w]
  by (auto simp add: handleListPush_def handleSetAdd_def mutate_def keeps_frame_def
        LeftPush_def RightPush_def Add_def Let_def)

theorem container_write_frame_witness:
  "fst (handleListPush ''k'' ''b'' False 100
          \<lparr>storage = fmupd ''k'' \<lparr>Data = VList [''a''], ExpiresAt = 500, CreatedAt = 90\<rparr> fmempty,
            ttlIndex = fmupd ''k'' 500 fmempty\<rparr>)
     = \<lparr>storage = fmupd ''k'' \<lparr>Data = VList [''a'', ''b''], ExpiresAt = 500, CreatedAt = 90\<rparr> fmempty,
        ttlIndex = fmupd ''k'' 500 fmempty\<rparr> \<and>
   fst (handleSetAdd ''k'' ''b'' 100
          \<lparr>storage = fmupd ''k'' \<lparr>Data = VSet {|''a''|}, ExpiresAt = 500, CreatedAt = 90\<rparr> fmempty,
            ttlIndex = fmupd ''k'' 500 fmempty\<rparr>)
     = \<lparr>storage = fmupd ''k'' \<lparr>Data = VSet {|''b'', ''a''|}, ExpiresAt = 500, CreatedAt = 90\<rparr> fmempty,
        ttlIndex = fmupd ''k'' 500 fmempty\<rparr> \<and>
   map_option fst (handleHashSet ''k'' (PutUint32 1 @ ''f'' @ ''x'') 100
          \<lparr>storage = fmupd ''k'' \<lparr>Data = VHash (fmupd ''g'' ''y'' fmempty), ExpiresAt = 500,
                                 CreatedAt = 90\<rparr> fmempty,
            ttlIndex = fmupd ''k'' 500 fmempty\<rparr>)
     = Some \<lparr>storage = fmupd ''k'' \<lparr>Data = VHash (fmupd ''f'' ''x'' (fmupd ''g'' ''y'' fmempty)),
                                   ExpiresAt = 500, CreatedAt = 90\<rparr> fmempty,
             ttlIndex = fmupd ''k'' 500 fmempty\<rparr>"
  using
    container_write_frame [where
      s = "\<lparr>storage = fmupd ''k'' \<lparr>Data = VList [''a''], ExpiresAt = 500, CreatedAt = 90\<rparr> fmempty,
        ttlIndex = fmupd ''k'' 500 fmempty\<rparr>" and key = "''k''" and now = 100
      and item = "\<lparr>Data = VList [''a''], ExpiresAt = 500, CreatedAt = 90\<rparr>"
      and l = "[''a'']" and v = "''b''" and isLeft = False]
    container_write_frame [where
      s = "\<lparr>storage = fmupd ''k'' \<lparr>Data = VSet {|''a''|}, ExpiresAt = 500, CreatedAt = 90\<rparr> fmempty,
        ttlIndex = fmupd ''k'' 500 fmempty\<rparr>" and key = "''k''" and now = 100
      and item = "\<lparr>Data = VSet {|''a''|}, ExpiresAt = 500, CreatedAt = 90\<rparr>"
      and m = "{|''a''|}" and member = "''b''"]
    container_write_frame [where
      s = "\<lparr>storage = fmupd ''k'' \<lparr>Data = VHash (fmupd ''g'' ''y'' fmempty), ExpiresAt = 500,
        CreatedAt = 90\<rparr> fmempty, ttlIndex = fmupd ''k'' 500 fmempty\<rparr>" and key = "''k''"
      and now = 100
      and item = "\<lparr>Data = VHash (fmupd ''g'' ''y'' fmempty), ExpiresAt = 500, CreatedAt = 90\<rparr>"
      and h = "fmupd ''g'' ''y'' fmempty" and field = "''f''" and w = "''x''"]
  by (auto simp add: expired_def)

section \<open>SCAN\<close>

lemma live_keys_props:
  "sorted (live_keys s now)" "distinct (live_keys s now)"
  "set (live_keys s now) = {k. k |\<in>| fmdom (storage s) \<and> \<not> is_expired s now k}"
  by (auto simp add: live_keys_def range_keys_def sorted_list_of_fset.rep_eq)

lemma handleScan_eq:
  "handleScan cursor pattern 10 now s
     = (s,
        createResponse RESP_OK
          (encodeScanResponse
             (if cursor + 10 \<le> length (live_keys s now) then (cursor + 10) mod 4294967296 else 0)
             (filter (matchPattern pattern) (take 10 (drop cursor (live_keys s now))))))"
proof -
  let ?keys = "live_keys s now"
  show ?thesis
  proof (cases "length ?keys \<le> cursor")
    case True
    then show ?thesis
      by (simp add: handleScan_def Let_def)
  next
    case False
    then have lt: "cursor < length ?keys" by simp
    show ?thesis
    proof (cases "cursor + 10 \<le> length ?keys")
      case True
      then have a: "\<not> int (length ?keys) < int cursor + 10" by simp
      have b: "nat ((int cursor + 10) mod 4294967296) = (cursor + 10) mod 4294967296"
        by (simp add: nat_mod_distrib nat_add_distrib)
      have c: "nat (int cursor + 10 - int cursor) = 10" by simp
      show ?thesis
        using lt True a b c
        by (simp add: handleScan_def Let_def)
    next
      case False
      then have a: "int (length ?keys) < int cursor + 10" by simp
      have c: "take (nat (int (length ?keys) - int cursor)) (drop cursor ?keys)
                 = take 10 (drop cursor ?keys)"
        using False lt by simp
      show ?thesis
        using lt False a c
        by (simp add: handleScan_def Let_def)
    qed
  qed
qed

lemma range_keys_of_list:
  "range_keys \<lparr>storage = fmap_of_list xs, ttlIndex = t\<rparr> = sort (remdups (map fst xs))"
  unfolding range_keys_def
  by (simp only: server.select_convs fmdom_fmap_of_list sorted_list_of_fset_of_list)

text \<open>
  Claim C5. SCAN takes the snapshot of the keys that have not expired, sorts
  it bytewise, returns the keys of the slice \<open>[cursor, cursor + 10)\<close> that
  match the pattern, and returns the next cursor 0 exactly when the slice
  reaches the end of the snapshot.

  The source tests \<^verbatim>\<open>endIndex > len(keys)\<close> before it sets
  \<^verbatim>\<open>nextCursor = 0 // No more keys\<close>, so a slice that ends exactly at the
  end of the snapshot misses the test. With ten keys and cursor 0 the reply
  carries all ten keys, no key is left, and the next cursor is 10, not 0.
\<close>

theorem scan_full_page_next_cursor:
  "processCommand
     \<lparr>Length = 11, Version = 1, Command = CMD_SCAN, Key = [], Value = ''*'', TTL = 0\<rparr> 100
     \<lparr>storage = fmap_of_list
        (map (\<lambda>k. (k, \<lparr>Data = VString ''v'', ExpiresAt = 0, CreatedAt = 90\<rparr>))
           [''a'', ''b'', ''c'', ''d'', ''e'', ''f'', ''g'', ''h'', ''i'', ''j'']),
      ttlIndex = fmempty\<rparr>
   = Some (\<lparr>storage = fmap_of_list
             (map (\<lambda>k. (k, \<lparr>Data = VString ''v'', ExpiresAt = 0, CreatedAt = 90\<rparr>))
                [''a'', ''b'', ''c'', ''d'', ''e'', ''f'', ''g'', ''h'', ''i'', ''j'']),
            ttlIndex = fmempty\<rparr>,
           createResponse RESP_OK
             (encodeScanResponse 10
                [''a'', ''b'', ''c'', ''d'', ''e'', ''f'', ''g'', ''h'', ''i'', ''j''])) \<and>
   encodeScanResponse 10 [''a'', ''b'', ''c'', ''d'', ''e'', ''f'', ''g'', ''h'', ''i'', ''j'']
     \<noteq> encodeScanResponse 0 [''a'', ''b'', ''c'', ''d'', ''e'', ''f'', ''g'', ''h'', ''i'', ''j'']"
proof -
  define S where "S = \<lparr>storage = fmap_of_list
        (map (\<lambda>k. (k, \<lparr>Data = VString ''v'', ExpiresAt = 0, CreatedAt = 90\<rparr>))
           [''a'', ''b'', ''c'', ''d'', ''e'', ''f'', ''g'', ''h'', ''i'', ''j'']),
      ttlIndex = fmempty\<rparr>"
  have rk: "range_keys S = [''a'', ''b'', ''c'', ''d'', ''e'', ''f'', ''g'', ''h'', ''i'', ''j'']"
    unfolding S_def range_keys_of_list by simp
  have live: "\<not> is_expired S 100 k" for k
    by (auto simp add: is_expired_def S_def expired_def split: option.splits dest!: map_of_SomeD)
  have lk: "live_keys S 100 = [''a'', ''b'', ''c'', ''d'', ''e'', ''f'', ''g'', ''h'', ''i'', ''j'']"
    by (simp add: live_keys_def rk live)
  have "processCommand
     \<lparr>Length = 11, Version = 1, Command = CMD_SCAN, Key = [], Value = ''*'', TTL = 0\<rparr> 100 S
    = Some (S, createResponse RESP_OK
             (encodeScanResponse 10
                [''a'', ''b'', ''c'', ''d'', ''e'', ''f'', ''g'', ''h'', ''i'', ''j'']))"
    by (simp add: processCommand_def handleScan_eq lk matchPattern_def)
  moreover have "encodeScanResponse 10 ks \<noteq> encodeScanResponse 0 ks" for ks
    by (simp add: encodeScanResponse_def PutUint32_def char_of_def bit_iff_odd)
  ultimately show ?thesis unfolding S_def by simp
qed

section \<open>MGET and MSET\<close>

lemma slice_at:
  "length pre = off \<Longrightarrow> slice (pre @ ys @ zs) off (off + length ys) = Some ys"
  by (auto simp add: slice_def)

lemma Uint32_PutUint32_id [simp]: "n < 4294967296 \<Longrightarrow> Uint32 (PutUint32 n) = Some n"
  using Uint32_PutUint32_small [of n "[]"] by simp

lemma slice_u32_at:
  "length pre = off \<Longrightarrow> slice (pre @ PutUint32 n @ zs) off (off + 4) = Some (PutUint32 n)"
  using slice_at [of pre off "PutUint32 n" zs] by simp

lemma mget_keys_payload:
  assumes "\<forall>k \<in> set ks. length k < 4294967296"
  shows "mget_keys (pre @ concat (map (\<lambda>k. PutUint32 (length k) @ k) ks) @ post)
           (length ks) (length pre) = Some (Inr ks)"
  using assms
proof (induction ks arbitrary: pre)
  case Nil
  then show ?case by simp
next
  case (Cons k ks)
  let ?rest = "concat (map (\<lambda>k. PutUint32 (length k) @ k) ks) @ post"
  let ?data = "pre @ PutUint32 (length k) @ k @ ?rest"
  have k: "length k < 4294967296" using Cons.prems by simp
  have 1: "slice ?data (length pre) (length pre + 4) = Some (PutUint32 (length k))"
    using slice_u32_at [OF refl, of pre "length k" "k @ ?rest"] by simp
  have 2: "slice ?data (length pre + 4) (length pre + 4 + length k) = Some k"
    using slice_at [of "pre @ PutUint32 (length k)" "length pre + 4" k ?rest] by simp
  have 3: "mget_keys ?data (length ks) (length pre + 4 + length k) = Some (Inr ks)"
    using Cons.IH [of "pre @ PutUint32 (length k) @ k"] Cons.prems by (simp add: add.assoc)
  have "mget_keys ?data (Suc (length ks)) (length pre) = Some (Inr (k # ks))"
    by (simp add: 1 2 3 k Let_def del: append_assoc)
  then show ?case by simp
qed

lemma mget_value_evict:
  assumes "fmlookup (storage s) key = Some item" and "expired item now"
  shows "mget_value (evict key s) now k = mget_value s now k"
  using assms by (simp add: mget_value_def evict_def)

lemma mget_values_eq:
  "snd (mget_values ks now s) = map (mget_value s now) ks"
proof (induction ks arbitrary: s)
  case Nil
  then show ?case by simp
next
  case (Cons k ks)
  show ?case
  proof (cases "fmlookup (storage s) k")
    case None
    then show ?thesis
      using Cons.IH [of s]
      by (cases "mget_values ks now s") (simp add: mget_value_def)
  next
    case (Some item)
    show ?thesis
    proof (cases "expired item now")
      case True
      have "map (mget_value (evict k s) now) ks = map (mget_value s now) ks"
        using mget_value_evict [OF Some True] by simp
      then show ?thesis
        using Some True Cons.IH [of "evict k s"]
        by (cases "mget_values ks now (evict k s)") (simp add: mget_value_def)
    next
      case False
      then show ?thesis
        using Some Cons.IH [of s]
        by (cases "mget_values ks now s"; cases "Data item") (simp_all add: mget_value_def)
    qed
  qed
qed

lemma handleMGet_payload:
  assumes "length ks < 4294967296" and "\<forall>k \<in> set ks. length k < 4294967296"
  shows "handleMGet (mget_payload ks) now s
           = Some (fst (mget_values ks now s),
                   createResponse RESP_OK (encodeMGetResponse (map (mget_value s now) ks)))"
proof -
  let ?body = "concat (map (\<lambda>k. PutUint32 (length k) @ k) ks)"
  have 0: "\<not> length (mget_payload ks) < 4" by (simp add: mget_payload_def)
  have 1: "slice (mget_payload ks) 0 4 = Some (PutUint32 (length ks))"
    using slice_u32_at [of "[]" 0 "length ks" ?body] by (simp add: mget_payload_def)
  have 2: "mget_keys (mget_payload ks) (length ks) 4 = Some (Inr ks)"
    using mget_keys_payload [OF assms(2), of "PutUint32 (length ks)" "[]"]
    by (simp add: mget_payload_def)
  show ?thesis
  proof (cases "ks = []")
    case True
    then show ?thesis using 0 1 by (simp add: handleMGet_def)
  next
    case False
    then show ?thesis
      using 0 1 2 assms(1) mget_values_eq [of ks now s]
      by (cases "mget_values ks now s") (simp add: handleMGet_def)
  qed
qed

lemma mset_loop_payload:
  assumes "\<forall>(k, v, ttl) \<in> set ps. length k < 4294967296 \<and> length v < 4294967296 \<and> ttl < 4294967296"
  shows "mset_loop
           (pre @ concat (map (\<lambda>(k, v, ttl). PutUint32 (length k) @ k @ PutUint32 (length v) @ v
                                          @ PutUint32 ttl) ps) @ post)
           (length ps) (length pre) c now s
         = Some (foldl (set_pair now) s ps,
                 createResponse RESP_OK (FormatInt (c + int (length ps))))"
  using assms
proof (induction ps arbitrary: pre c s)
  case Nil
  then show ?case by simp
next
  case (Cons p ps)
  obtain k v ttl where p: "p = (k, v, ttl)" by (cases p)
  let ?enc = "\<lambda>(k, v, ttl). PutUint32 (length k) @ k @ PutUint32 (length v) @ v @ PutUint32 ttl"
  let ?rest = "concat (map ?enc ps) @ post"
  let ?data = "pre @ PutUint32 (length k) @ k @ PutUint32 (length v) @ v @ PutUint32 ttl @ ?rest"
  let ?o = "length pre"
  have b: "length k < 4294967296" "length v < 4294967296" "ttl < 4294967296"
    using Cons.prems p by simp_all
  have 1: "slice ?data ?o (?o + 4) = Some (PutUint32 (length k))"
    using slice_u32_at [OF refl, of pre] by simp
  have 2: "slice ?data (?o + 4) (?o + 4 + length k) = Some k"
    using slice_at [of "pre @ PutUint32 (length k)" "?o + 4" k] by simp
  have 3: "slice ?data (?o + 4 + length k) (?o + 4 + length k + 4) = Some (PutUint32 (length v))"
    using slice_u32_at [of "pre @ PutUint32 (length k) @ k" "?o + 4 + length k"] by simp
  have 4: "slice ?data (?o + 4 + length k + 4) (?o + 4 + length k + 4 + length v) = Some v"
    using slice_at [of "pre @ PutUint32 (length k) @ k @ PutUint32 (length v)"
        "?o + 4 + length k + 4" v] by simp
  have 5: "slice ?data (?o + 4 + length k + 4 + length v) (?o + 4 + length k + 4 + length v + 4)
             = Some (PutUint32 ttl)"
    using slice_u32_at [of "pre @ PutUint32 (length k) @ k @ PutUint32 (length v) @ v"
        "?o + 4 + length k + 4 + length v"] by simp
  have c: "\<not> length ?data < ?o + 4" "\<not> length ?data < ?o + 4 + length k"
    "\<not> length ?data < ?o + 4 + length k + 4"
    "\<not> length ?data < ?o + 4 + length k + 4 + length v"
    "\<not> length ?data < ?o + 4 + length k + 4 + length v + 4"
    by simp_all
  have 6: "mset_loop ?data (length ps) (?o + 4 + length k + 4 + length v + 4) (c + 1) now s'
             = Some (foldl (set_pair now) s' ps,
                     createResponse RESP_OK (FormatInt (c + 1 + int (length ps))))" for s'
    using Cons.IH [of "pre @ PutUint32 (length k) @ k @ PutUint32 (length v) @ v @ PutUint32 ttl"
        "c + 1" s'] Cons.prems
    by (simp add: add.assoc)
  have "mset_loop ?data (Suc (length ps)) ?o c now s
          = Some (foldl (set_pair now) (set_pair now s (k, v, ttl)) ps,
                  createResponse RESP_OK (FormatInt (c + 1 + int (length ps))))"
    unfolding mset_loop.simps
    apply (simp only: c 1 2 3 4 5 6 b Uint32_PutUint32_id bind.bind_lunit Let_def if_False)
    apply (simp add: set_pair_def mset_item_def)
    done
  moreover have "c + 1 + int (length ps) = c + int (length (p # ps))" by simp
  ultimately show ?case by (simp only: p list.map concat.simps append_assoc split_conv
    list.size foldl_Cons) simp
qed


lemma FormatInt_0: "FormatInt 0 = ''0''"
  by (simp add: FormatInt_def digits.simps char_of_def bit_iff_odd)

lemma handleMSet_payload:
  assumes "length ps < 4294967296"
    and "\<forall>(k, v, ttl) \<in> set ps. length k < 4294967296 \<and> length v < 4294967296 \<and> ttl < 4294967296"
  shows "handleMSet (mset_payload ps) now s
           = Some (foldl (set_pair now) s ps, createResponse RESP_OK (FormatInt (int (length ps))))"
proof -
  let ?enc = "\<lambda>(k, v, ttl). PutUint32 (length k) @ k @ PutUint32 (length v) @ v @ PutUint32 ttl"
  have 0: "\<not> length (mset_payload ps) < 4" by (simp add: mset_payload_def)
  have 1: "slice (mset_payload ps) 0 4 = Some (PutUint32 (length ps))"
    using slice_u32_at [of "[]" 0 "length ps" "concat (map ?enc ps)"]
    by (simp add: mset_payload_def)
  have 2: "mset_loop (mset_payload ps) (length ps) 4 0 now s
             = Some (foldl (set_pair now) s ps,
                     createResponse RESP_OK (FormatInt (int (length ps))))"
    using mset_loop_payload [OF assms(2), of "PutUint32 (length ps)" "[]" 0 now s]
    by (simp add: mset_payload_def)
  show ?thesis
  proof (cases "ps = []")
    case True
    then show ?thesis using 0 1 by (simp add: handleMSet_def FormatInt_0)
  next
    case False
    then show ?thesis using 0 1 2 assms(1) by (simp add: handleMSet_def)
  qed
qed

lemma storage_set_pair_other:
  "k \<notin> fst ` set ps \<Longrightarrow>
     fmlookup (storage (foldl (set_pair now) s ps)) k = fmlookup (storage s) k"
  by (induction ps arbitrary: s) (auto simp add: set_pair_def)

lemma storage_set_pair:
  "distinct (map fst ps) \<Longrightarrow> (k, v, ttl) \<in> set ps \<Longrightarrow>
     fmlookup (storage (foldl (set_pair now) s ps)) k = Some (mset_item now v ttl)"
proof (induction ps arbitrary: s)
  case Nil
  then show ?case by simp
next
  case (Cons p ps)
  show ?case
  proof (cases "p = (k, v, ttl)")
    case True
    then have "k \<notin> fst ` set ps" using Cons.prems(1) by simp
    then have "fmlookup (storage (foldl (set_pair now) (set_pair now s p) ps)) k
                 = fmlookup (storage (set_pair now s p)) k"
      by (rule storage_set_pair_other)
    also have "\<dots> = Some (mset_item now v ttl)"
      using True by (simp add: set_pair_def)
    finally show ?thesis by simp
  next
    case False
    then show ?thesis using Cons by simp
  qed
qed

lemma mget_after_mset:
  assumes "distinct (map fst ps)"
    and "\<forall>(k, v, ttl) \<in> set ps. \<not> expired (mset_item now v ttl) now'"
  shows "map (mget_value (foldl (set_pair now) s ps) now') (map fst ps)
           = map (\<lambda>(k, v, ttl). Some v) ps"
proof -
  have "mget_value (foldl (set_pair now) s ps) now' (fst p) = (case p of (k, v, ttl) \<Rightarrow> Some v)"
    if "p \<in> set ps" for p
  proof -
    obtain k v ttl where p: "p = (k, v, ttl)" by (cases p)
    have "fmlookup (storage (foldl (set_pair now) s ps)) k = Some (mset_item now v ttl)"
      using storage_set_pair [OF assms(1)] that p by simp
    moreover have "\<not> expired (mset_item now v ttl) now'"
      using assms(2) that p by auto
    ultimately show ?thesis
      by (simp add: p mget_value_def) (simp add: mset_item_def)
  qed
  then show ?thesis by simp
qed

text \<open>
  Claim C7. For every list of keys sent to MGET the response is OK and its body
  is the count followed by one entry per key in request order: the length and
  the bytes of the value for a key that holds a live STRING, and the length
  \<open>0xFFFFFFFF\<close> with no bytes for a key that is missing, expired or of another
  type. Hence MSET of pairs with distinct keys, none of them expired at the
  time of the read, followed by MGET of the same keys returns the stored values
  in request order.
\<close>

theorem mget_in_request_order:
  assumes "length ks < 4294967296" and "\<forall>k \<in> set ks. length k < 4294967296"
  shows "map_option snd (handleMGet (mget_payload ks) now s)
           = Some (createResponse RESP_OK
                     (PutUint32 (length ks) @
                      concat (map (\<lambda>k. case mget_value s now k of
                                          None \<Rightarrow> PutUint32 4294967295
                                        | Some v \<Rightarrow> PutUint32 (length v) @ v) ks))) \<and>
         (\<forall>ps now'.
            ks = map fst ps \<and> distinct ks \<and>
            (\<forall>(k, v, ttl) \<in> set ps.
               length v < 4294967296 \<and> ttl < 4294967296 \<and>
               \<not> expired (mset_item now v ttl) now') \<longrightarrow>
            map_option snd (handleMSet (mset_payload ps) now s)
              = Some (createResponse RESP_OK (FormatInt (int (length ps)))) \<and>
            handleMSet (mset_payload ps) now s \<bind>
              (\<lambda>(s1, _). map_option snd (handleMGet (mget_payload ks) now' s1))
              = Some (createResponse RESP_OK (encodeMGetResponse (map (\<lambda>(k, v, ttl). Some v) ps))))"
proof -
  have a: "map_option snd (handleMGet (mget_payload ks) now s)
           = Some (createResponse RESP_OK
                     (PutUint32 (length ks) @
                      concat (map (\<lambda>k. case mget_value s now k of
                                          None \<Rightarrow> PutUint32 4294967295
                                        | Some v \<Rightarrow> PutUint32 (length v) @ v) ks)))" for now s
    by (simp add: handleMGet_payload [OF assms] encodeMGetResponse_def comp_def)
  have b: "map_option snd (handleMSet (mset_payload ps) now s)
              = Some (createResponse RESP_OK (FormatInt (int (length ps)))) \<and>
            handleMSet (mset_payload ps) now s \<bind>
              (\<lambda>(s1, _). map_option snd (handleMGet (mget_payload ks) now' s1))
              = Some (createResponse RESP_OK (encodeMGetResponse (map (\<lambda>(k, v, ttl). Some v) ps)))"
    if h: "ks = map fst ps" "distinct ks"
      "\<forall>(k, v, ttl) \<in> set ps.
               length v < 4294967296 \<and> ttl < 4294967296 \<and>
               \<not> expired (mset_item now v ttl) now'"
    for ps now'
  proof -
    have len: "length ps < 4294967296" using assms(1) h(1) by simp
    have sizes: "\<forall>(k, v, ttl) \<in> set ps.
                   length k < 4294967296 \<and> length v < 4294967296 \<and> ttl < 4294967296"
      using assms(2) h(1,3) by fastforce
    have live: "\<forall>(k, v, ttl) \<in> set ps. \<not> expired (mset_item now v ttl) now'"
      using h(3) by fastforce
    have m: "handleMSet (mset_payload ps) now s
           = Some (foldl (set_pair now) s ps, createResponse RESP_OK (FormatInt (int (length ps))))"
      by (rule handleMSet_payload [OF len sizes])
    have g: "map (mget_value (foldl (set_pair now) s ps) now') ks
               = map (\<lambda>(k, v, ttl). Some v) ps"
      using mget_after_mset [of ps now now' s] h(1,2) live by simp
    show ?thesis
      by (simp add: m handleMGet_payload [OF assms] g)
  qed
  show ?thesis using a b by blast
qed


theorem mget_in_request_order_witness:
  "map_option snd
     (handleMGet (mget_payload [''present'', ''absent'']) 100
        \<lparr>storage = fmupd ''present'' \<lparr>Data = VString ''v'', ExpiresAt = 0, CreatedAt = 90\<rparr> fmempty,
         ttlIndex = fmempty\<rparr>)
     = Some (createResponse RESP_OK (PutUint32 2 @ PutUint32 1 @ ''v'' @ PutUint32 4294967295)) \<and>
   handleMSet (mset_payload [(''a'', ''1'', 0), (''b'', ''2'', 5)]) 100 NewGoFastServer \<bind>
     (\<lambda>(s1, _). map_option snd (handleMGet (mget_payload [''a'', ''b'']) 101 s1))
     = Some (createResponse RESP_OK (encodeMGetResponse [Some ''1'', Some ''2'']))"
  using
    mget_in_request_order [of "[''present'', ''absent'']" 100
      "\<lparr>storage = fmupd ''present'' \<lparr>Data = VString ''v'', ExpiresAt = 0, CreatedAt = 90\<rparr> fmempty,
        ttlIndex = fmempty\<rparr>", THEN conjunct1]
    mget_in_request_order [of "[''a'', ''b'']" 100 NewGoFastServer,
      THEN conjunct2, THEN spec, THEN spec, of "[(''a'', ''1'', 0), (''b'', ''2'', 5)]" 101]
  by (simp add: mget_value_def expired_def mset_item_def wrap64_def numeral_2_eq_2)

end
